theory Spec2Isabelle
  imports Complex_Main "HOL-Library.Char_ord" "HOL-Library.List_Lexorder"
begin

section \<open>Python values, errors and containers\<close>

text \<open>
  The program is \<^verbatim>\<open>src/analysis/statistics.py\<close>. Its values are modelled as follows.
  \<^item> A Python \<^verbatim>\<open>int\<close> is an \<open>int\<close>; a Python \<^verbatim>\<open>float\<close> is the real number it
    stands for (rounding of the floating-point result is not modelled).
  \<^item> A Python \<^verbatim>\<open>str\<close> is a \<open>string\<close>; a character stands for a code point below 256.
  \<^item> A \<^verbatim>\<open>dict\<close> is an association list with distinct keys, in insertion order.
  \<^item> A \<^verbatim>\<open>set\<close> of strings is a \<open>string set\<close>; the order in which the interpreter
    iterates over a set is a parameter \<open>iter_order\<close> of the functions that iterate.
  \<^item> An exception is the left summand of a result.
\<close>

datatype py_error = KeyError string | ZeroDivisionError | ValueError | StatisticsError

datatype pyval = PInt int | PFloat real

type_synonym ('k, 'v) dict = "('k \<times> 'v) list"

text \<open>\<^verbatim>\<open>d[k] = v\<close>: an existing key keeps its position, a new key goes last.\<close>

fun dict_setitem :: "('k, 'v) dict \<Rightarrow> 'k \<Rightarrow> 'v \<Rightarrow> ('k, 'v) dict" where
  "dict_setitem [] k v = [(k, v)]"
| "dict_setitem ((k', v') # d) k v =
     (if k' = k then (k', v) # d else (k', v') # dict_setitem d k v)"

text \<open>\<^verbatim>\<open>d[k]\<close> on a plain dict raises \<^verbatim>\<open>KeyError\<close> for a missing key.\<close>

definition dict_getitem :: "(string, 'v) dict \<Rightarrow> string \<Rightarrow> py_error + 'v" where
  "dict_getitem d k = (case map_of d k of None \<Rightarrow> Inl (KeyError k) | Some v \<Rightarrow> Inr v)"

text \<open>
  \<^verbatim>\<open>d[k]\<close> on a \<^verbatim>\<open>defaultdict\<close>: a missing key is inserted with the default value, which
  is returned. The result is the value and the dictionary after the access.
\<close>

definition dd_getitem :: "'v \<Rightarrow> ('k, 'v) dict \<Rightarrow> 'k \<Rightarrow> 'v \<times> ('k, 'v) dict" where
  "dd_getitem dflt d k =
     (case map_of d k of Some v \<Rightarrow> (v, d) | None \<Rightarrow> (dflt, d @ [(k, dflt)]))"

text \<open>The accesses \<^verbatim>\<open>d[pid] for pid in post_ids\<close> of a generator, in order.\<close>

fun dd_getitems :: "'v \<Rightarrow> ('k, 'v) dict \<Rightarrow> 'k list \<Rightarrow> 'v list \<times> ('k, 'v) dict" where
  "dd_getitems dflt d [] = ([], d)"
| "dd_getitems dflt d (k # ks) =
     (case dd_getitem dflt d k of (v, d') \<Rightarrow>
        (case dd_getitems dflt d' ks of (vs, d'') \<Rightarrow> (v # vs, d'')))"

text \<open>\<^verbatim>\<open>d[k].add(x)\<close> and \<^verbatim>\<open>d[k].append(x)\<close> on a \<^verbatim>\<open>defaultdict\<close>.\<close>

definition dd_set_add :: "('k, 'a set) dict \<Rightarrow> 'k \<Rightarrow> 'a \<Rightarrow> ('k, 'a set) dict" where
  "dd_set_add d k x = (case dd_getitem {} d k of (s, d') \<Rightarrow> dict_setitem d' k (insert x s))"

definition dd_list_append :: "('k, 'a list) dict \<Rightarrow> 'k \<Rightarrow> 'a \<Rightarrow> ('k, 'a list) dict" where
  "dd_list_append d k x = (case dd_getitem [] d k of (l, d') \<Rightarrow> dict_setitem d' k (l @ [x]))"

text \<open>
  Reading a grouping without changing it: what \<^verbatim>\<open>d[k]\<close> returns on a
  \<^verbatim>\<open>defaultdict\<close>, an absent key counting as the default.
\<close>

definition dd_lookup :: "'v \<Rightarrow> ('k, 'v) dict \<Rightarrow> 'k \<Rightarrow> 'v" where
  "dd_lookup dflt d k = (case map_of d k of Some v \<Rightarrow> v | None \<Rightarrow> dflt)"

subsection \<open>Library functions the program calls\<close>

text \<open>
  \<^verbatim>\<open>str.split()\<close> with no argument: the maximal runs of characters that are not white
  space. \<open>py_isspace\<close> lists the white-space code points below 256.
\<close>

definition py_isspace :: "char \<Rightarrow> bool" where
  "py_isspace c = (of_char c \<in> {9, 10, 11, 12, 13, 28, 29, 30, 31, 32, 133, 160 :: nat})"

fun split_from :: "string \<Rightarrow> string \<Rightarrow> string list" where
  "split_from cur [] = (if cur = [] then [] else [cur])"
| "split_from cur (c # cs) =
     (if py_isspace c then (if cur = [] then split_from [] cs else cur # split_from [] cs)
      else split_from (cur @ [c]) cs)"

definition split :: "string \<Rightarrow> string list" where
  "split s = split_from [] s"

text \<open>\<^verbatim>\<open>a / b\<close> on two ints: a float, or \<^verbatim>\<open>ZeroDivisionError\<close>.\<close>

definition true_div :: "int \<Rightarrow> int \<Rightarrow> py_error + pyval" where
  "true_div a b = (if b = 0 then Inl ZeroDivisionError
                   else Inr (PFloat (real_of_int a / real_of_int b)))"

text \<open>\<^verbatim>\<open>min\<close> and \<^verbatim>\<open>max\<close> of a list raise \<^verbatim>\<open>ValueError\<close> on the empty list.\<close>

fun py_min :: "int list \<Rightarrow> py_error + int" where
  "py_min [] = Inl ValueError"
| "py_min (x # xs) = Inr (fold min xs x)"

fun py_max :: "int list \<Rightarrow> py_error + int" where
  "py_max [] = Inl ValueError"
| "py_max (x # xs) = Inr (fold max xs x)"

text \<open>
  \<^verbatim>\<open>statistics.median\<close>: the middle element of the sorted data when their number is
  odd (an int), the true quotient of the sum of the two middle elements by 2 when it is
  even (a float); \<^verbatim>\<open>StatisticsError\<close> on no data.
\<close>

definition median :: "int list \<Rightarrow> py_error + pyval" where
  "median data =
     (let s = sort data; n = length s in
      if n = 0 then Inl StatisticsError
      else if n mod 2 = 1 then Inr (PInt (s ! (n div 2)))
      else Inr (PFloat (real_of_int (s ! (n div 2 - 1) + s ! (n div 2)) / 2)))"

text \<open>
  \<^verbatim>\<open>statistics.stdev\<close>: the square root of the sample variance, the sum of the squared
  deviations from the mean divided by \<open>n - 1\<close>; \<^verbatim>\<open>StatisticsError\<close> on fewer than two
  data.
\<close>

definition mean :: "int list \<Rightarrow> real" where
  "mean data = real_of_int (sum_list data) / real (length data)"

definition stdev :: "int list \<Rightarrow> py_error + pyval" where
  "stdev data =
     (if length data < 2 then Inl StatisticsError
      else Inr (PFloat (sqrt ((\<Sum>x\<leftarrow>data. (real_of_int x - mean data)\<^sup>2)
                               / real (length data - 1)))))"

text \<open>
  \<^verbatim>\<open>Counter\<close>: a dict of counts, a missing key reading as 0 without being inserted.
  \<^verbatim>\<open>counter[s] += 1\<close> stores the count read plus one. \<^verbatim>\<open>most_common()\<close> is
  \<^verbatim>\<open>sorted(items, key=itemgetter(1), reverse=True)\<close>: the items are reversed, sorted
  stably by ascending count, and reversed again.
\<close>

definition counter_incr :: "(string, int) dict \<Rightarrow> string \<Rightarrow> (string, int) dict" where
  "counter_incr counter s =
     dict_setitem counter s ((case map_of counter s of None \<Rightarrow> 0 | Some n \<Rightarrow> n) + 1)"

definition most_common :: "(string, int) dict \<Rightarrow> (string \<times> int) list" where
  "most_common counter = rev (sort_key snd (rev counter))"

subsection \<open>Printed output\<close>

text \<open>
  A printed line is the sequence of the pieces of its f-string: literal text, and
  formatted values with their format specification, \<open>Plain\<close> for \<^verbatim>\<open>{v}\<close> and
  \<open>Fixed2\<close> for \<^verbatim>\<open>{v:.2f}\<close>. An interpolated \<^verbatim>\<open>str\<close> is literal text.
\<close>

datatype fmt_spec = Plain | Fixed2

datatype piece = Lit string | Fmt pyval fmt_spec

type_synonym line = "piece list"

section \<open>The program\<close>

definition BDI_DSM5_MAPPING :: "(int, string) dict" where
  "BDI_DSM5_MAPPING =
     [(1, ''DEPRESSED_MOOD''), (2, ''DEPRESSED_MOOD''), (3, ''WORTHLESSNESS''),
      (4, ''ANHEDONIA''), (5, ''WORTHLESSNESS''), (6, ''WORTHLESSNESS''),
      (7, ''WORTHLESSNESS''), (8, ''WORTHLESSNESS''), (9, ''SUICIDAL_THOUGHTS''),
      (10, ''DEPRESSED_MOOD''), (11, ''PSYCHOMOTOR''), (12, ''ANHEDONIA''),
      (13, ''COGNITIVE_ISSUES''), (14, ''WORTHLESSNESS''), (15, ''FATIGUE''),
      (16, ''SLEEP_ISSUES''), (17, ''DEPRESSED_MOOD''), (18, ''APPETITE_CHANGE''),
      (19, ''COGNITIVE_ISSUES''), (20, ''FATIGUE''), (21, ''ANHEDONIA'')]"

definition DSM5_SYMPTOM_NAMES :: "string set" where
  "DSM5_SYMPTOM_NAMES = set (map snd BDI_DSM5_MAPPING)"

text \<open>
  The loaders take the rows that \<^verbatim>\<open>csv.DictReader\<close> yields for a file whose header has
  the columns read: a post row is \<open>(post_id, text)\<close>, an annotation row is
  \<open>(post_id, DSM5_symptom, status)\<close>.
\<close>

type_synonym post_row = "string \<times> string"

type_synonym annotation_row = "string \<times> string \<times> string"

type_synonym symptoms_dict = "(string, string set) dict"

type_synonym annotations_dict = "(string, (string \<times> string) list) dict"

definition load_full_posts :: "post_row list \<Rightarrow> (string, string) dict" where
  "load_full_posts rows =
     foldl (\<lambda>posts (post_id, text). dict_setitem posts post_id text) [] rows"

definition annotation_step ::
  "symptoms_dict \<times> annotations_dict \<Rightarrow> annotation_row \<Rightarrow> symptoms_dict \<times> annotations_dict" where
  "annotation_step st row =
     (case st of (post_to_symptoms, post_to_all_annotations) \<Rightarrow>
      case row of (post_id, symptom, status) \<Rightarrow>
        ((if status = ''1'' \<and> symptom \<in> DSM5_SYMPTOM_NAMES
          then dd_set_add post_to_symptoms post_id symptom else post_to_symptoms),
         (if status = ''0'' \<or> status = ''1''
          then dd_list_append post_to_all_annotations post_id (symptom, status)
          else post_to_all_annotations)))"

definition load_annotations :: "annotation_row list \<Rightarrow> symptoms_dict \<times> annotations_dict" where
  "load_annotations rows = foldl annotation_step ([], []) rows"

text \<open>
  The local variables of \<^verbatim>\<open>print_statistics\<close>, one definition for each assignment of
  lines 63 to 76. Those that read a \<^verbatim>\<open>defaultdict\<close> return it as it is after the reads.
\<close>

definition n_of_explanations :: "string list \<Rightarrow> annotations_dict \<Rightarrow> int \<times> annotations_dict" where
  "n_of_explanations post_ids post_to_all_annotations =
     (case dd_getitems [] post_to_all_annotations post_ids of
        (ls, d) \<Rightarrow> (sum_list (map (\<lambda>l. int (length l)) ls), d))"

definition avg_explanations_per_post :: "int \<Rightarrow> int \<Rightarrow> pyval" where
  "avg_explanations_per_post n_expl n_of_posts =
     (if n_of_posts \<noteq> 0 then PFloat (real_of_int n_expl / real_of_int n_of_posts) else PInt 0)"

definition n_of_hard_negatives :: "string list \<Rightarrow> symptoms_dict \<Rightarrow> int \<times> symptoms_dict" where
  "n_of_hard_negatives post_ids post_to_symptoms =
     (case dd_getitems {} post_to_symptoms post_ids of
        (ss, d) \<Rightarrow> (sum_list (map (\<lambda>s. 1) (filter (\<lambda>s. s = {}) ss)), d))"

fun post_lengths :: "(string, string) dict \<Rightarrow> string list \<Rightarrow> py_error + int list" where
  "post_lengths posts [] = Inr []"
| "post_lengths posts (pid # pids) =
     (case dict_getitem posts pid of
        Inl e \<Rightarrow> Inl e
      | Inr text \<Rightarrow>
          (case post_lengths posts pids of
             Inl e \<Rightarrow> Inl e
           | Inr ls \<Rightarrow> Inr (int (length (split text)) # ls)))"

definition avg_length :: "int list \<Rightarrow> int \<Rightarrow> py_error + pyval" where
  "avg_length lens n_of_posts = true_div (sum_list lens) n_of_posts"

definition std_dev_length :: "int list \<Rightarrow> int \<Rightarrow> py_error + pyval" where
  "std_dev_length lens n_of_posts = (if n_of_posts > 1 then stdev lens else Inr (PInt 0))"

definition avg_symptoms_per_post ::
  "string list \<Rightarrow> symptoms_dict \<Rightarrow> int \<Rightarrow> pyval \<times> symptoms_dict" where
  "avg_symptoms_per_post post_ids post_to_symptoms n_of_posts =
     (if n_of_posts \<noteq> 0
      then (case dd_getitems {} post_to_symptoms post_ids of
              (ss, d) \<Rightarrow>
                (PFloat (real_of_int (sum_list (map (\<lambda>s. int (card s)) ss))
                         / real_of_int n_of_posts), d))
      else (PInt 0, post_to_symptoms))"

text \<open>The ten \<^verbatim>\<open>print\<close> calls of lines 78 to 89.\<close>

definition statistics_lines ::
  "int \<Rightarrow> int \<Rightarrow> pyval \<Rightarrow> pyval \<Rightarrow> int \<Rightarrow> pyval \<Rightarrow> pyval \<Rightarrow> pyval \<Rightarrow> int \<Rightarrow> int \<Rightarrow> line list" where
  "statistics_lines n_posts n_expl avg_expl avg_sympt n_hard avg_len median_len std_dev_len
       min_len max_len =
     [[Lit ''Total number of posts: '', Fmt (PInt n_posts) Plain],
      [Lit ''Total number of explanations (all status): '', Fmt (PInt n_expl) Plain],
      [Lit ''Avg. number of explanations per post: '', Fmt avg_expl Fixed2],
      [Lit ''Avg. number of symptoms per post (status=1 only): '', Fmt avg_sympt Fixed2],
      [Lit ''Number of hard negatives: '', Fmt (PInt n_hard) Plain],
      [Lit ''Avg. length of post (in words): '', Fmt avg_len Fixed2],
      [Lit ''Median length of post (in words): '', Fmt median_len Plain],
      [Lit ''Std. dev. of post length (in words): '', Fmt std_dev_len Fixed2],
      [Lit ''Min. length of post (in words): '', Fmt (PInt min_len) Plain],
      [Lit ''Max. length of post (in words): '', Fmt (PInt max_len) Plain]]"

text \<open>
  \<^verbatim>\<open>print_statistics\<close>: the assignments in the order of the source, the first exception
  ending the call before anything is printed. The result is the exception or the printed
  lines, with the two \<^verbatim>\<open>defaultdict\<close>s as the call leaves them.
\<close>

definition print_statistics ::
  "string list \<Rightarrow> (string, string) dict \<Rightarrow> symptoms_dict \<Rightarrow> annotations_dict
     \<Rightarrow> (py_error + line list) \<times> symptoms_dict \<times> annotations_dict" where
  "print_statistics post_ids posts post_to_symptoms post_to_all_annotations =
     (let n_of_posts = int (length post_ids) in
      case n_of_explanations post_ids post_to_all_annotations of (n_expl, pta) \<Rightarrow>
      let avg_expl = avg_explanations_per_post n_expl n_of_posts in
      case n_of_hard_negatives post_ids post_to_symptoms of (n_hard, pts) \<Rightarrow>
      case post_lengths posts post_ids of Inl e \<Rightarrow> (Inl e, pts, pta) | Inr lens \<Rightarrow>
      case avg_length lens n_of_posts of Inl e \<Rightarrow> (Inl e, pts, pta) | Inr avg_len \<Rightarrow>
      case py_min lens of Inl e \<Rightarrow> (Inl e, pts, pta) | Inr min_len \<Rightarrow>
      case py_max lens of Inl e \<Rightarrow> (Inl e, pts, pta) | Inr max_len \<Rightarrow>
      case median lens of Inl e \<Rightarrow> (Inl e, pts, pta) | Inr median_len \<Rightarrow>
      case std_dev_length lens n_of_posts of Inl e \<Rightarrow> (Inl e, pts, pta) | Inr std_dev_len \<Rightarrow>
      case avg_symptoms_per_post post_ids pts n_of_posts of (avg_sympt, pts') \<Rightarrow>
        (Inr (statistics_lines n_of_posts n_expl avg_expl avg_sympt n_hard avg_len median_len
                std_dev_len min_len max_len),
         pts', pta))"

text \<open>
  \<^verbatim>\<open>print_symptom_distribution\<close>: the counter is filled over the values of the dict in
  insertion order, each set in the interpreter's iteration order.
\<close>

definition symptom_counter :: "(string set \<Rightarrow> string list) \<Rightarrow> symptoms_dict \<Rightarrow> (string, int) dict" where
  "symptom_counter iter_order post_to_symptoms =
     foldl (\<lambda>counter symptoms. foldl counter_incr counter (iter_order symptoms)) []
       (map snd post_to_symptoms)"

definition print_symptom_distribution :: "(string set \<Rightarrow> string list) \<Rightarrow> symptoms_dict \<Rightarrow> line list" where
  "print_symptom_distribution iter_order post_to_symptoms =
     [Lit ''Posts per symptom (status=1 only):'']
     # map (\<lambda>(symptom, count). [Lit ''  '', Lit symptom, Lit '': '', Fmt (PInt count) Plain])
         (most_common (symptom_counter iter_order post_to_symptoms))"

definition main ::
  "(string set \<Rightarrow> string list) \<Rightarrow> post_row list \<Rightarrow> annotation_row list \<Rightarrow> py_error + line list" where
  "main iter_order post_rows annotation_rows =
     (let posts = load_full_posts post_rows in
      case load_annotations annotation_rows of (post_to_symptoms, post_to_all_annotations) \<Rightarrow>
      let all_post_ids = map fst posts in
      case print_statistics all_post_ids posts post_to_symptoms post_to_all_annotations of
        (Inl e, pts, pta) \<Rightarrow> Inl e
      | (Inr lines, pts, pta) \<Rightarrow>
          Inr (lines @ [[]] @ print_symptom_distribution iter_order pts))"

text \<open>
  An iteration order of sets is admissible when it lists every finite set, each element
  once.
\<close>

definition valid_iter_order :: "(string set \<Rightarrow> string list) \<Rightarrow> bool" where
  "valid_iter_order iter_order =
     (\<forall>S. finite S \<longrightarrow> set (iter_order S) = S \<and> distinct (iter_order S))"

text \<open>
  A piece is printed with two decimals when it is no float, or a float with the format
  \<open>Fixed2\<close>.
\<close>

fun two_decimals :: "piece \<Rightarrow> bool" where
  "two_decimals (Fmt (PFloat x) f) = (f = Fixed2)"
| "two_decimals p = True"

section \<open>Containers: basic facts\<close>

lemma map_of_dict_setitem: "map_of (dict_setitem d k v) = (map_of d)(k \<mapsto> v)"
  by (induction d) (auto simp: fun_eq_iff)

lemma keys_dict_setitem:
  "map fst (dict_setitem d k v) = (if k \<in> fst ` set d then map fst d else map fst d @ [k])"
  by (induction d) force+

lemma distinct_dict_setitem:
  "distinct (map fst d) \<Longrightarrow> distinct (map fst (dict_setitem d k v))"
  by (simp add: keys_dict_setitem)

section \<open>The Post Loader\<close>

lemma load_full_posts_snoc:
  "load_full_posts (rows @ [(p, t)]) = dict_setitem (load_full_posts rows) p t"
  by (simp add: load_full_posts_def)

lemma map_of_load_full_posts:
  "map_of (load_full_posts rows) pid = map_option snd (find (\<lambda>r. fst r = pid) (rev rows))"
proof (induction rows rule: rev_induct)
  case Nil
  show ?case by (simp add: load_full_posts_def)
next
  case (snoc r rows)
  obtain p t where r: "r = (p, t)" by (cases r)
  show ?case using snoc by (simp add: r load_full_posts_snoc map_of_dict_setitem)
qed

lemma keys_load_full_posts:
  "map fst (load_full_posts rows) = rev (remdups (rev (map fst rows)))"
proof (induction rows rule: rev_induct)
  case Nil
  show ?case by (simp add: load_full_posts_def)
next
  case (snoc r rows)
  obtain p t where r: "r = (p, t)" by (cases r)
  have "set (map fst (load_full_posts rows)) = fst ` set rows"
    by (simp add: snoc)
  then have "p \<in> fst ` set (load_full_posts rows) \<longleftrightarrow> p \<in> fst ` set rows"
    by simp
  then show ?case
    using snoc by (simp add: r load_full_posts_snoc keys_dict_setitem)
qed

text \<open>
  C6. The Post Loader takes the rows in file order: the keys of the resulting map are
  the identifiers in the order of their first rows, and the text held for an identifier
  is the text of the last row that has it (the first such row of the reversed file), so
  a later row overwrites an earlier one. No row is refused: the loader has no error
  result, and a row with the empty text stores the empty text.
\<close>

theorem load_full_posts_last_write_wins:
  "map_of (load_full_posts rows) pid = map_option snd (find (\<lambda>r. fst r = pid) (rev rows))
   \<and> map fst (load_full_posts rows) = rev (remdups (rev (map fst rows)))
   \<and> map_of (load_full_posts (rows @ [(pid, [])])) pid = Some []"
  by (simp add: map_of_load_full_posts keys_load_full_posts)

section \<open>The Statistics Reporter on an empty identifier list\<close>

lemma print_statistics_Nil:
  "print_statistics [] posts pts pta = (Inl ZeroDivisionError, pts, pta)"
  by (simp add: print_statistics_def n_of_explanations_def n_of_hard_negatives_def
      avg_length_def true_div_def)

text \<open>
  C3. With an empty list of post identifiers the two guarded averages evaluate to zero
  without a division: line 64 gives 0 for the explanations, and the expression of lines
  72 to 76 gives 0 for the symptoms. The length statistics are fatal: the mean of line 67
  divides by the post count and raises \<^verbatim>\<open>ZeroDivisionError\<close>, so the call ends with that
  error, prints no line and leaves the groupings as they were; \<^verbatim>\<open>min\<close>, \<^verbatim>\<open>max\<close> and
  \<^verbatim>\<open>median\<close> raise on an empty list as well.
\<close>

theorem print_statistics_empty_ids:
  "avg_explanations_per_post (fst (n_of_explanations [] pta)) (int (length ([] :: string list)))
     = PInt 0
   \<and> fst (avg_symptoms_per_post [] pts (int (length ([] :: string list)))) = PInt 0
   \<and> avg_length [] (int (length ([] :: string list))) = Inl ZeroDivisionError
   \<and> py_min [] = Inl ValueError \<and> py_max [] = Inl ValueError
   \<and> median [] = Inl StatisticsError
   \<and> print_statistics [] posts pts pta = (Inl ZeroDivisionError, pts, pta)"
  by (simp add: print_statistics_Nil avg_explanations_per_post_def avg_symptoms_per_post_def
      avg_length_def true_div_def median_def)

section \<open>Reading a defaultdict\<close>

lemma fst_dd_getitem: "fst (dd_getitem dflt d k) = dd_lookup dflt d k"
  by (simp add: dd_getitem_def dd_lookup_def split: option.splits)

lemma dd_lookup_dd_getitem:
  "dd_lookup dflt (snd (dd_getitem dflt d k)) k' = dd_lookup dflt d k'"
  by (cases "map_of d k"; cases "map_of d k'")
    (simp_all add: dd_getitem_def dd_lookup_def map_add_def)

lemma dd_getitems_Cons:
  "dd_getitems dflt d (k # ks) =
     (fst (dd_getitem dflt d k) # fst (dd_getitems dflt (snd (dd_getitem dflt d k)) ks),
      snd (dd_getitems dflt (snd (dd_getitem dflt d k)) ks))"
  by (simp add: split_beta)

lemma fst_dd_getitems: "fst (dd_getitems dflt d ks) = map (dd_lookup dflt d) ks"
proof (induction ks arbitrary: d)
  case Nil
  show ?case by simp
next
  case (Cons k ks)
  show ?case
    unfolding dd_getitems_Cons Cons by (simp add: fst_dd_getitem dd_lookup_dd_getitem)
qed

lemma dd_getitem_present:
  assumes "k \<in> fst ` set d"
  shows "snd (dd_getitem dflt d k) = d"
proof -
  have "map_of d k \<noteq> None" using assms by (simp add: map_of_eq_None_iff)
  then show ?thesis by (auto simp: dd_getitem_def)
qed

lemma dd_getitem_absent:
  assumes "k \<notin> fst ` set d"
  shows "snd (dd_getitem dflt d k) = d @ [(k, dflt)]"
proof -
  have "map_of d k = None" using assms by (simp add: map_of_eq_None_iff)
  then show ?thesis by (simp add: dd_getitem_def)
qed

text \<open>
  The reads of a list of keys leave the dictionary as it was, followed by one entry with
  the default value for each key read that was absent.
\<close>

lemma snd_dd_getitems:
  "\<exists>new. snd (dd_getitems dflt d ks) = d @ map (\<lambda>k. (k, dflt)) new
         \<and> distinct new \<and> set new = set ks - fst ` set d"
proof (induction ks arbitrary: d)
  case Nil
  show ?case by simp
next
  case (Cons k ks)
  show ?case
  proof (cases "k \<in> fst ` set d")
    case True
    from Cons [of d] obtain new where new:
      "snd (dd_getitems dflt d ks) = d @ map (\<lambda>k. (k, dflt)) new"
      "distinct new" "set new = set ks - fst ` set d" by blast
    have step: "snd (dd_getitems dflt d (k # ks)) = snd (dd_getitems dflt d ks)"
      unfolding dd_getitems_Cons by (simp add: dd_getitem_present True)
    have s: "set new = set (k # ks) - fst ` set d"
      using True new(3) by auto
    have "snd (dd_getitems dflt d (k # ks)) = d @ map (\<lambda>k. (k, dflt)) new
            \<and> distinct new \<and> set new = set (k # ks) - fst ` set d"
      unfolding step using new(1,2) s by simp
    then show ?thesis by (rule exI)
  next
    case False
    from Cons [of "d @ [(k, dflt)]"] obtain new where new:
      "snd (dd_getitems dflt (d @ [(k, dflt)]) ks) = (d @ [(k, dflt)]) @ map (\<lambda>k. (k, dflt)) new"
      "distinct new" "set new = set ks - fst ` set (d @ [(k, dflt)])" by blast
    have step: "snd (dd_getitems dflt d (k # ks)) = snd (dd_getitems dflt (d @ [(k, dflt)]) ks)"
      unfolding dd_getitems_Cons by (simp add: dd_getitem_absent False)
    have d: "distinct (k # new)" and s: "set (k # new) = set (k # ks) - fst ` set d"
      using False new(2,3) by auto
    have "snd (dd_getitems dflt d (k # ks)) = d @ map (\<lambda>k. (k, dflt)) (k # new)
            \<and> distinct (k # new) \<and> set (k # new) = set (k # ks) - fst ` set d"
      unfolding step new(1) using d s by simp
    then show ?thesis by (rule exI)
  qed
qed

lemma snd_dd_getitems_present:
  assumes "set ks \<subseteq> fst ` set d"
  shows "snd (dd_getitems dflt d ks) = d"
proof -
  obtain new where new: "snd (dd_getitems dflt d ks) = d @ map (\<lambda>k. (k, dflt)) new"
    and s: "set new = set ks - fst ` set d"
    using snd_dd_getitems [of dflt d ks] by blast
  from assms s have "set new = {}" by simp
  then show ?thesis using new by simp
qed

lemma keys_snd_dd_getitems: "set ks \<subseteq> fst ` set (snd (dd_getitems dflt d ks))"
proof -
  obtain new where new: "snd (dd_getitems dflt d ks) = d @ map (\<lambda>k. (k, dflt)) new"
    and s: "set new = set ks - fst ` set d"
    using snd_dd_getitems [of dflt d ks] by blast
  have "fst ` set (d @ map (\<lambda>k. (k, dflt)) new) = fst ` set d \<union> set new"
    by (simp add: image_Un image_image)
  then show ?thesis unfolding new s by auto
qed

lemma dd_lookup_dd_getitems:
  "dd_lookup dflt (snd (dd_getitems dflt d ks)) k = dd_lookup dflt d k"
proof (induction ks arbitrary: d)
  case Nil
  show ?case by simp
next
  case (Cons k' ks)
  show ?case unfolding dd_getitems_Cons by (simp add: Cons dd_lookup_dd_getitem)
qed

lemma dd_lookup_set_add:
  "dd_lookup {} (dd_set_add d k x) k' =
     (if k' = k then insert x (dd_lookup {} d k) else dd_lookup {} d k')"
  by (auto simp: dd_lookup_def dd_set_add_def dd_getitem_def map_of_dict_setitem
      split: option.splits)

lemma dd_lookup_list_append:
  "dd_lookup [] (dd_list_append d k x) k' =
     (if k' = k then dd_lookup [] d k @ [x] else dd_lookup [] d k')"
  by (auto simp: dd_lookup_def dd_list_append_def dd_getitem_def map_of_dict_setitem
      split: option.splits)

section \<open>The Annotation Aggregator\<close>

lemma load_annotations_snoc:
  "load_annotations (rows @ [r]) = annotation_step (load_annotations rows) r"
  by (simp add: load_annotations_def)

lemma annotation_step_other_status:
  "status \<noteq> ''0'' \<Longrightarrow> status \<noteq> ''1'' \<Longrightarrow> annotation_step st (p, s, status) = st"
  by (simp add: annotation_step_def split: prod.splits)

lemma symptoms_annotation_step:
  "dd_lookup {} (fst (annotation_step st (p, s, status))) pid =
     (if pid = p \<and> status = ''1'' \<and> s \<in> DSM5_SYMPTOM_NAMES
      then insert s (dd_lookup {} (fst st) pid) else dd_lookup {} (fst st) pid)"
  by (cases st) (simp add: annotation_step_def dd_lookup_set_add)

lemma explanations_annotation_step:
  "dd_lookup [] (snd (annotation_step st (p, s, status))) pid =
     (if pid = p \<and> (status = ''0'' \<or> status = ''1'')
      then dd_lookup [] (snd st) pid @ [(s, status)] else dd_lookup [] (snd st) pid)"
  by (cases st) (simp add: annotation_step_def dd_lookup_list_append)

text \<open>The two groupings of a whole file, read at one post identifier.\<close>

lemma symptoms_load_annotations:
  "dd_lookup {} (fst (load_annotations rows)) pid =
     {s. (pid, s, ''1'') \<in> set rows \<and> s \<in> DSM5_SYMPTOM_NAMES}"
proof (induction rows rule: rev_induct)
  case Nil
  show ?case by (simp add: load_annotations_def dd_lookup_def)
next
  case (snoc r rows)
  obtain p s status where r: "r = (p, s, status)" by (cases r)
  show ?case
    unfolding load_annotations_snoc r symptoms_annotation_step snoc by auto
qed

lemma explanations_load_annotations:
  "dd_lookup [] (snd (load_annotations rows)) pid =
     map snd (filter (\<lambda>(p, s, status). p = pid \<and> (status = ''0'' \<or> status = ''1'')) rows)"
proof (induction rows rule: rev_induct)
  case Nil
  show ?case by (simp add: load_annotations_def dd_lookup_def)
next
  case (snoc r rows)
  obtain p s status where r: "r = (p, s, status)" by (cases r)
  show ?case
    unfolding load_annotations_snoc r explanations_annotation_step snoc by auto
qed

lemma load_annotations_skip:
  assumes "status \<noteq> ''0''" "status \<noteq> ''1''"
  shows "load_annotations (before @ (p, s, status) # after) = load_annotations (before @ after)"
  using assms by (simp add: load_annotations_def annotation_step_other_status)

lemma ANHEDONIA_is_name: "''ANHEDONIA'' \<in> DSM5_SYMPTOM_NAMES"
  by (simp add: DSM5_SYMPTOM_NAMES_def BDI_DSM5_MAPPING_def)

lemma load_annotations_twice:
  "load_annotations [(''p1'', ''ANHEDONIA'', ''1''), (''p1'', ''ANHEDONIA'', ''1'')]
     = ([(''p1'', {''ANHEDONIA''})],
        [(''p1'', [(''ANHEDONIA'', ''1''), (''ANHEDONIA'', ''1'')])])"
  by (simp add: load_annotations_def annotation_step_def dd_set_add_def dd_list_append_def
      dd_getitem_def ANHEDONIA_is_name)

lemma load_annotations_once:
  "load_annotations [(''p1'', ''ANHEDONIA'', ''1'')]
     = ([(''p1'', {''ANHEDONIA''})], [(''p1'', [(''ANHEDONIA'', ''1'')])])"
  by (simp add: load_annotations_def annotation_step_def dd_set_add_def dd_list_append_def
      dd_getitem_def ANHEDONIA_is_name)

text \<open>
  C4. One pass over the rows, each row \<open>(post_id, symptom, status)\<close> taken as follows.
  With status \<open>''1''\<close> and a symptom of the taxonomy's value set, the symptom is inserted
  in the confirmed-symptom set of \<open>post_id\<close>; inserting a symptom the set holds leaves
  the set as it is. With status \<open>''0''\<close> or \<open>''1''\<close>, in the taxonomy or not, the pair
  \<open>(symptom, status)\<close> is appended to the explanation list of \<open>post_id\<close>. No other
  identifier's set or list changes. A row with any other status changes nothing: the
  two groupings of the file are those of the file without the row. Over a whole file the
  set of an identifier holds the taxonomy symptoms of its rows of status \<open>''1''\<close>, and its
  list holds the pairs of its rows of status \<open>''0''\<close> or \<open>''1''\<close> in file order, repeated
  rows included.
\<close>

theorem load_annotations_classifies:
  "(let old = load_annotations before;
        new = load_annotations (before @ [(post_id, symptom, status)])
    in (\<forall>pid. dd_lookup {} (fst new) pid =
              (if pid = post_id \<and> status = ''1'' \<and> symptom \<in> DSM5_SYMPTOM_NAMES
               then insert symptom (dd_lookup {} (fst old) pid)
               else dd_lookup {} (fst old) pid))
     \<and> (\<forall>pid. dd_lookup [] (snd new) pid =
              (if pid = post_id \<and> (status = ''0'' \<or> status = ''1'')
               then dd_lookup [] (snd old) pid @ [(symptom, status)]
               else dd_lookup [] (snd old) pid))
     \<and> (symptom \<in> dd_lookup {} (fst old) post_id \<longrightarrow>
          dd_lookup {} (fst new) post_id = dd_lookup {} (fst old) post_id))
   \<and> (status \<noteq> ''0'' \<and> status \<noteq> ''1'' \<longrightarrow>
        load_annotations (before @ (post_id, symptom, status) # after)
          = load_annotations (before @ after))
   \<and> dd_lookup {} (fst (load_annotations rows)) pid
        = {s. (pid, s, ''1'') \<in> set rows \<and> s \<in> DSM5_SYMPTOM_NAMES}
   \<and> dd_lookup [] (snd (load_annotations rows)) pid
        = map snd (filter (\<lambda>(p, s, st). p = pid \<and> (st = ''0'' \<or> st = ''1'')) rows)"
  unfolding Let_def load_annotations_snoc symptoms_annotation_step explanations_annotation_step
  using load_annotations_skip [of status before post_id symptom after]
    symptoms_load_annotations [of rows pid] explanations_load_annotations [of rows pid]
  by (simp add: insert_absorb)

theorem load_annotations_classifies_witness:
  "dd_lookup {} (fst (load_annotations
      ([(''p1'', ''ANHEDONIA'', ''1'')] @ [(''p1'', ''ANHEDONIA'', ''1'')]))) ''p1''
     = {''ANHEDONIA''}
   \<and> dd_lookup [] (snd (load_annotations
      ([(''p1'', ''ANHEDONIA'', ''1'')] @ [(''p1'', ''ANHEDONIA'', ''1'')]))) ''p1''
     = [(''ANHEDONIA'', ''1''), (''ANHEDONIA'', ''1'')]
   \<and> load_annotations ([(''p1'', ''ANHEDONIA'', ''1'')] @ (''p1'', ''ANHEDONIA'', ''2'')
        # [(''p1'', ''ANHEDONIA'', ''1'')])
     = load_annotations ([(''p1'', ''ANHEDONIA'', ''1'')] @ [(''p1'', ''ANHEDONIA'', ''1'')])"
proof -
  have old: "''ANHEDONIA'' \<in> dd_lookup {} (fst (load_annotations [(''p1'', ''ANHEDONIA'', ''1'')])) ''p1''"
    by (simp add: load_annotations_once dd_lookup_def)
  have other: "''2'' \<noteq> ''0'' \<and> ''2'' \<noteq> ''1''"
    by simp
  show ?thesis
    using old other
      load_annotations_classifies [of "[(''p1'', ''ANHEDONIA'', ''1'')]" "''p1''" "''ANHEDONIA''"
        "''1''" "[(''p1'', ''ANHEDONIA'', ''1'')]" "[]" "''p1''"]
      load_annotations_classifies [of "[(''p1'', ''ANHEDONIA'', ''1'')]" "''p1''" "''ANHEDONIA''"
        "''2''" "[(''p1'', ''ANHEDONIA'', ''1'')]" "[]" "''p1''"]
    by (simp add: Let_def load_annotations_once dd_lookup_def)
qed

text \<open>
  C5. For every annotation file and every post identifier, the explanation list of the
  identifier is at least as long as its confirmed-symptom set is large, an identifier
  absent from a grouping counting as empty.
\<close>

theorem explanations_at_least_symptoms:
  "card (dd_lookup {} (fst (load_annotations rows)) pid)
     \<le> length (dd_lookup [] (snd (load_annotations rows)) pid)"
proof -
  let ?ex = "filter (\<lambda>(p, s, status). p = pid \<and> (status = ''0'' \<or> status = ''1'')) rows"
  have "{s. (pid, s, ''1'') \<in> set rows \<and> s \<in> DSM5_SYMPTOM_NAMES} \<subseteq> (fst \<circ> snd) ` set ?ex"
    by force
  then have "card {s. (pid, s, ''1'') \<in> set rows \<and> s \<in> DSM5_SYMPTOM_NAMES}
               \<le> card ((fst \<circ> snd) ` set ?ex)"
    by (intro card_mono) auto
  also have "\<dots> \<le> card (set ?ex)" by (rule card_image_le) simp
  also have "\<dots> \<le> length ?ex" by (rule card_length)
  finally show ?thesis
    by (simp add: symptoms_load_annotations explanations_load_annotations)
qed

section \<open>The Statistics Reporter\<close>

lemma n_of_explanations_eq:
  "n_of_explanations post_ids pta =
     (sum_list (map (\<lambda>pid. int (length (dd_lookup [] pta pid))) post_ids),
      snd (dd_getitems [] pta post_ids))"
  by (simp add: n_of_explanations_def split_beta fst_dd_getitems comp_def)

lemma n_of_hard_negatives_eq:
  "n_of_hard_negatives post_ids pts =
     (int (length (filter (\<lambda>pid. dd_lookup {} pts pid = {}) post_ids)),
      snd (dd_getitems {} pts post_ids))"
proof -
  have "sum_list (map (\<lambda>s. 1) xs) = int (length xs)" for xs :: "string set list"
    by (induction xs) simp_all
  then show ?thesis
    by (simp add: n_of_hard_negatives_def split_beta fst_dd_getitems filter_map comp_def)
qed

lemma avg_symptoms_per_post_eq:
  assumes "post_ids \<noteq> []"
  shows "avg_symptoms_per_post post_ids (snd (dd_getitems {} pts post_ids))
           (int (length post_ids)) =
     (PFloat (real_of_int (sum_list (map (\<lambda>pid. int (card (dd_lookup {} pts pid))) post_ids))
              / real_of_int (int (length post_ids))),
      snd (dd_getitems {} pts post_ids))"
  using assms
  by (simp add: avg_symptoms_per_post_def split_beta fst_dd_getitems dd_lookup_dd_getitems
      snd_dd_getitems_present keys_snd_dd_getitems comp_def)

lemma length_post_lengths:
  "post_lengths posts post_ids = Inr lens \<Longrightarrow> length lens = length post_ids"
  by (induction post_ids arbitrary: lens) (auto split: sum.splits)

lemma post_lengths_Inr_iff:
  "(\<exists>lens. post_lengths posts post_ids = Inr lens) \<longleftrightarrow> set post_ids \<subseteq> fst ` set posts"
proof (induction post_ids)
  case Nil
  show ?case by simp
next
  case (Cons pid pids)
  have "(\<exists>t. dict_getitem posts pid = Inr t) \<longleftrightarrow> map_of posts pid \<noteq> None"
    by (cases "map_of posts pid") (simp_all add: dict_getitem_def)
  then have "(\<exists>t. dict_getitem posts pid = Inr t) \<longleftrightarrow> pid \<in> fst ` set posts"
    by (simp add: map_of_eq_None_iff)
  with Cons show ?case
    by (cases "dict_getitem posts pid"; cases "post_lengths posts pids") auto
qed

lemma median_Inr:
  assumes "lens \<noteq> []"
  shows "\<exists>m. median lens = Inr m
           \<and> (odd (length lens) \<longrightarrow> (\<exists>i. m = PInt i))
           \<and> (even (length lens) \<longrightarrow> (\<exists>i. m = PFloat (real_of_int i / 2)))"
proof (cases "odd (length lens)")
  case True
  have sne: "sort lens \<noteq> []"
    using assms by (metis length_0_conv length_sort)
  with True assms have "median lens = Inr (PInt (sort lens ! (length lens div 2)))"
    by (simp add: median_def Let_def odd_iff_mod_2_eq_one)
  with True show ?thesis by blast
next
  case False
  have sne: "sort lens \<noteq> []"
    using assms by (metis length_0_conv length_sort)
  with False assms have "median lens = Inr (PFloat (real_of_int
      (sort lens ! (length lens div 2 - 1) + sort lens ! (length lens div 2)) / 2))"
    by (simp add: median_def Let_def odd_iff_mod_2_eq_one)
  with False show ?thesis by blast
qed

lemma py_min_Inr: "lens \<noteq> [] \<Longrightarrow> \<exists>m. py_min lens = Inr m"
  by (cases lens) simp_all

lemma py_max_Inr: "lens \<noteq> [] \<Longrightarrow> \<exists>m. py_max lens = Inr m"
  by (cases lens) simp_all

lemma std_dev_length_eq:
  assumes "length lens = length post_ids"
  shows "std_dev_length lens (int (length post_ids)) =
     Inr (if length post_ids > 1
          then PFloat (sqrt ((\<Sum>x\<leftarrow>lens. (real_of_int x - mean lens)\<^sup>2)
                 / real (length post_ids - 1)))
          else PInt 0)"
  using assms by (simp add: std_dev_length_def stdev_def)

text \<open>The result of a call that reaches the prints.\<close>

lemma print_statistics_success:
  assumes lens: "post_lengths posts post_ids = Inr lens" and ne: "post_ids \<noteq> []"
  shows "\<exists>med mn mx.
     median lens = Inr med \<and> py_min lens = Inr mn \<and> py_max lens = Inr mx \<and>
     print_statistics post_ids posts pts pta =
       (Inr (statistics_lines (int (length post_ids))
          (sum_list (map (\<lambda>pid. int (length (dd_lookup [] pta pid))) post_ids))
          (PFloat (real_of_int (sum_list (map (\<lambda>pid. int (length (dd_lookup [] pta pid))) post_ids))
                   / real_of_int (int (length post_ids))))
          (PFloat (real_of_int (sum_list (map (\<lambda>pid. int (card (dd_lookup {} pts pid))) post_ids))
                   / real_of_int (int (length post_ids))))
          (int (length (filter (\<lambda>pid. dd_lookup {} pts pid = {}) post_ids)))
          (PFloat (real_of_int (sum_list lens) / real_of_int (int (length post_ids))))
          med
          (if length post_ids > 1
           then PFloat (sqrt ((\<Sum>x\<leftarrow>lens. (real_of_int x - mean lens)\<^sup>2)
                  / real (length post_ids - 1)))
           else PInt 0)
          mn mx),
        snd (dd_getitems {} pts post_ids), snd (dd_getitems [] pta post_ids))"
proof -
  have len: "length lens = length post_ids"
    using lens by (rule length_post_lengths)
  with ne have lne: "lens \<noteq> []" by auto
  obtain med where med: "median lens = Inr med" using median_Inr [OF lne] by blast
  obtain mn where mn: "py_min lens = Inr mn" using py_min_Inr [OF lne] by blast
  obtain mx where mx: "py_max lens = Inr mx" using py_max_Inr [OF lne] by blast
  have avg: "avg_length lens (int (length post_ids))
               = Inr (PFloat (real_of_int (sum_list lens) / real_of_int (int (length post_ids))))"
    using ne by (simp add: avg_length_def true_div_def)
  have avg_e: "avg_explanations_per_post n_expl (int (length post_ids))
               = PFloat (real_of_int n_expl / real_of_int (int (length post_ids)))" for n_expl
    using ne by (simp add: avg_explanations_per_post_def)
  have "print_statistics post_ids posts pts pta =
       (Inr (statistics_lines (int (length post_ids))
          (sum_list (map (\<lambda>pid. int (length (dd_lookup [] pta pid))) post_ids))
          (PFloat (real_of_int (sum_list (map (\<lambda>pid. int (length (dd_lookup [] pta pid))) post_ids))
                   / real_of_int (int (length post_ids))))
          (PFloat (real_of_int (sum_list (map (\<lambda>pid. int (card (dd_lookup {} pts pid))) post_ids))
                   / real_of_int (int (length post_ids))))
          (int (length (filter (\<lambda>pid. dd_lookup {} pts pid = {}) post_ids)))
          (PFloat (real_of_int (sum_list lens) / real_of_int (int (length post_ids))))
          med
          (if length post_ids > 1
           then PFloat (sqrt ((\<Sum>x\<leftarrow>lens. (real_of_int x - mean lens)\<^sup>2)
                  / real (length post_ids - 1)))
           else PInt 0)
          mn mx),
        snd (dd_getitems {} pts post_ids), snd (dd_getitems [] pta post_ids))"
    unfolding print_statistics_def Let_def n_of_explanations_eq n_of_hard_negatives_eq
      prod.case lens sum.case avg avg_e med mn mx std_dev_length_eq [OF len]
      avg_symptoms_per_post_eq [OF ne]
    by (rule refl)
  with med mn mx show ?thesis by blast
qed

lemma print_statistics_failure:
  assumes "post_lengths posts post_ids = Inl e"
  shows "print_statistics post_ids posts pts pta =
           (Inl e, snd (dd_getitems {} pts post_ids), snd (dd_getitems [] pta post_ids))"
  unfolding print_statistics_def Let_def n_of_explanations_eq n_of_hard_negatives_eq
    prod.case assms sum.case
  by (rule refl)

lemma snd_print_statistics:
  "snd (print_statistics post_ids posts pts pta)
     = (snd (dd_getitems {} pts post_ids), snd (dd_getitems [] pta post_ids))"
proof (cases "post_lengths posts post_ids")
  case (Inl e)
  then show ?thesis by (simp add: print_statistics_failure)
next
  case (Inr lens)
  show ?thesis
  proof (cases "post_ids = []")
    case True
    then show ?thesis by (simp add: print_statistics_Nil)
  next
    case False
    from print_statistics_success [OF Inr False, of pts pta] show ?thesis by auto
  qed
qed

subsection \<open>Runs on concrete corpora\<close>

lemma split_abc: "split ''a b c'' = [''a'', ''b'', ''c'']"
  by (simp add: split_def py_isspace_def)

lemma split_abcd: "split ''a b c d'' = [''a'', ''b'', ''c'', ''d'']"
  by (simp add: split_def py_isspace_def)

lemma split_abcde: "split ''a b c d e'' = [''a'', ''b'', ''c'', ''d'', ''e'']"
  by (simp add: split_def py_isspace_def)

lemma median_3_5: "median [3, 5] = Inr (PFloat 4)"
  by (simp add: median_def)

lemma median_3_4: "median [3, 4] = Inr (PFloat (7 / 2))"
  by (simp add: median_def)

lemma post_lengths_A:
  "post_lengths [(''p1'', ''a b c''), (''p2'', ''a b c d e'')] [''p1'', ''p2''] = Inr [3, 5]"
  by (simp add: dict_getitem_def split_abc split_abcde)

lemma post_lengths_B:
  "post_lengths [(''p1'', ''a b c''), (''p2'', ''a b c d'')] [''p1'', ''p2''] = Inr [3, 4]"
  by (simp add: dict_getitem_def split_abc split_abcd)

lemma stdev_3_5: "stdev [3, 5] = Inr (PFloat (sqrt 2))"
  by (simp add: stdev_def mean_def)

lemma print_statistics_B:
  "print_statistics [''p1'', ''p2''] [(''p1'', ''a b c''), (''p2'', ''a b c d'')] [] [] =
    (Inr [[Lit ''Total number of posts: '', Fmt (PInt 2) Plain],
      [Lit ''Total number of explanations (all status): '', Fmt (PInt 0) Plain],
      [Lit ''Avg. number of explanations per post: '', Fmt (PFloat 0) Fixed2],
      [Lit ''Avg. number of symptoms per post (status=1 only): '', Fmt (PFloat 0) Fixed2],
      [Lit ''Number of hard negatives: '', Fmt (PInt 2) Plain],
      [Lit ''Avg. length of post (in words): '', Fmt (PFloat (7 / 2)) Fixed2],
      [Lit ''Median length of post (in words): '', Fmt (PFloat (7 / 2)) Plain],
      [Lit ''Std. dev. of post length (in words): '', Fmt (PFloat (sqrt (1 / 2))) Fixed2],
      [Lit ''Min. length of post (in words): '', Fmt (PInt 3) Plain],
      [Lit ''Max. length of post (in words): '', Fmt (PInt 4) Plain]],
     [(''p1'', {}), (''p2'', {})], [(''p1'', []), (''p2'', [])])"
  by (simp add: print_statistics_def Let_def n_of_explanations_def n_of_hard_negatives_def
      avg_explanations_per_post_def avg_symptoms_per_post_def avg_length_def true_div_def
      std_dev_length_def stdev_def mean_def dict_getitem_def split_abc split_abcd
      median_3_4 dd_getitem_def
      statistics_lines_def power2_eq_square)

lemma valid_iter_order_sorted: "valid_iter_order sorted_list_of_set"
  by (simp add: valid_iter_order_def)

lemma iter_order_empty:
  assumes "valid_iter_order iter_order"
  shows "iter_order {} = []"
proof -
  have "finite ({} :: string set)" by simp
  with assms have "set (iter_order {}) = {}"
    unfolding valid_iter_order_def by blast
  then show ?thesis by simp
qed

lemma iter_order_singleton:
  assumes "valid_iter_order iter_order"
  shows "iter_order {x} = [x]"
proof -
  have s: "set (iter_order {x}) = {x}" and d: "distinct (iter_order {x})"
    using assms by (simp_all add: valid_iter_order_def)
  from d have "length (iter_order {x}) = card (set (iter_order {x}))"
    by (simp add: distinct_card)
  with s have "length (iter_order {x}) = 1" by simp
  then obtain y where "iter_order {x} = [y]"
    by (cases "iter_order {x}") auto
  with s show ?thesis by simp
qed

lemma DEPRESSED_MOOD_is_name: "''DEPRESSED_MOOD'' \<in> DSM5_SYMPTOM_NAMES"
  by (simp add: DSM5_SYMPTOM_NAMES_def BDI_DSM5_MAPPING_def)

lemma WORTHLESSNESS_is_name: "''WORTHLESSNESS'' \<in> DSM5_SYMPTOM_NAMES"
  by (simp add: DSM5_SYMPTOM_NAMES_def BDI_DSM5_MAPPING_def)

lemma load_full_posts_A:
  "load_full_posts [(''p1'', ''a b c''), (''p2'', ''a b c d e'')]
     = [(''p1'', ''a b c''), (''p2'', ''a b c d e'')]"
  by (simp add: load_full_posts_def)

lemma load_annotations_A:
  "load_annotations [(''p1'', ''DEPRESSED_MOOD'', ''1''), (''p1'', ''ANHEDONIA'', ''0''),
      (''p2'', ''WORTHLESSNESS'', ''1'')]
     = ([(''p1'', {''DEPRESSED_MOOD''}), (''p2'', {''WORTHLESSNESS''})],
        [(''p1'', [(''DEPRESSED_MOOD'', ''1''), (''ANHEDONIA'', ''0'')]),
         (''p2'', [(''WORTHLESSNESS'', ''1'')])])"
  by (simp add: load_annotations_def annotation_step_def dd_set_add_def dd_list_append_def
      dd_getitem_def DEPRESSED_MOOD_is_name WORTHLESSNESS_is_name)

lemma print_statistics_A:
  "print_statistics [''p1'', ''p2''] [(''p1'', ''a b c''), (''p2'', ''a b c d e'')]
      [(''p1'', {''DEPRESSED_MOOD''}), (''p2'', {''WORTHLESSNESS''})]
      [(''p1'', [(''DEPRESSED_MOOD'', ''1''), (''ANHEDONIA'', ''0'')]),
       (''p2'', [(''WORTHLESSNESS'', ''1'')])] =
    (Inr [[Lit ''Total number of posts: '', Fmt (PInt 2) Plain],
      [Lit ''Total number of explanations (all status): '', Fmt (PInt 3) Plain],
      [Lit ''Avg. number of explanations per post: '', Fmt (PFloat (3 / 2)) Fixed2],
      [Lit ''Avg. number of symptoms per post (status=1 only): '', Fmt (PFloat 1) Fixed2],
      [Lit ''Number of hard negatives: '', Fmt (PInt 0) Plain],
      [Lit ''Avg. length of post (in words): '', Fmt (PFloat 4) Fixed2],
      [Lit ''Median length of post (in words): '', Fmt (PFloat 4) Plain],
      [Lit ''Std. dev. of post length (in words): '', Fmt (PFloat (sqrt 2)) Fixed2],
      [Lit ''Min. length of post (in words): '', Fmt (PInt 3) Plain],
      [Lit ''Max. length of post (in words): '', Fmt (PInt 5) Plain]],
     [(''p1'', {''DEPRESSED_MOOD''}), (''p2'', {''WORTHLESSNESS''})],
     [(''p1'', [(''DEPRESSED_MOOD'', ''1''), (''ANHEDONIA'', ''0'')]),
      (''p2'', [(''WORTHLESSNESS'', ''1'')])])"
  by (simp add: print_statistics_def Let_def n_of_explanations_def n_of_hard_negatives_def
      avg_explanations_per_post_def avg_symptoms_per_post_def avg_length_def true_div_def
      std_dev_length_def stdev_def mean_def dict_getitem_def split_abc split_abcde
      median_3_5 dd_getitem_def statistics_lines_def power2_eq_square)

lemma print_symptom_distribution_A:
  assumes "valid_iter_order iter_order"
  shows "print_symptom_distribution iter_order
      [(''p1'', {''DEPRESSED_MOOD''}), (''p2'', {''WORTHLESSNESS''})] =
    [[Lit ''Posts per symptom (status=1 only):''],
     [Lit ''  '', Lit ''DEPRESSED_MOOD'', Lit '': '', Fmt (PInt 1) Plain],
     [Lit ''  '', Lit ''WORTHLESSNESS'', Lit '': '', Fmt (PInt 1) Plain]]"
  by (simp add: print_symptom_distribution_def symptom_counter_def
      iter_order_singleton [OF assms] counter_incr_def most_common_def)

subsection \<open>Claims about the statistics block\<close>

text \<open>
  C2, refuted as stated: with one post that has no annotation, the call leaves both
  groupings with a new key for the post, so they are not equal to the empty groupings
  it was given.
\<close>

theorem print_statistics_adds_keys:
  "snd (print_statistics [''p1''] [(''p1'', ''a b c'')] [] []) = ([(''p1'', {})], [(''p1'', [])])
   \<and> snd (print_statistics [''p1''] [(''p1'', ''a b c'')] [] []) \<noteq> ([], [])"
  by (simp add: snd_print_statistics dd_getitem_def)

text \<open>
  C2, amended. The call only reads the post map and the identifier list. Of each
  grouping it changes no entry and removes none: after the call the grouping is the one
  before, followed by one new entry, with the empty set or the empty list, for each
  identifier of the list that was not a key of it (each such identifier once). This holds
  for every input, also when the call ends with an exception.
\<close>

theorem print_statistics_frame:
  "\<exists>new_s new_a.
     snd (print_statistics post_ids posts pts pta)
       = (pts @ map (\<lambda>pid. (pid, {})) new_s, pta @ map (\<lambda>pid. (pid, [])) new_a)
     \<and> distinct new_s \<and> set new_s = set post_ids - fst ` set pts
     \<and> distinct new_a \<and> set new_a = set post_ids - fst ` set pta"
proof -
  obtain new_s where s: "snd (dd_getitems {} pts post_ids) = pts @ map (\<lambda>pid. (pid, {})) new_s"
    "distinct new_s" "set new_s = set post_ids - fst ` set pts"
    using snd_dd_getitems [of "{}" pts post_ids] by blast
  obtain new_a where a: "snd (dd_getitems [] pta post_ids) = pta @ map (\<lambda>pid. (pid, [])) new_a"
    "distinct new_a" "set new_a = set post_ids - fst ` set pta"
    using snd_dd_getitems [of "[]" pta post_ids] by blast
  have "snd (print_statistics post_ids posts pts pta)
       = (pts @ map (\<lambda>pid. (pid, {})) new_s, pta @ map (\<lambda>pid. (pid, [])) new_a)
     \<and> distinct new_s \<and> set new_s = set post_ids - fst ` set pts
     \<and> distinct new_a \<and> set new_a = set post_ids - fst ` set pta"
    unfolding snd_print_statistics using s a by simp
  then show ?thesis by (intro exI)
qed

lemma print_statistics_Inr_D:
  assumes "print_statistics post_ids posts pts pta = (Inr lines, st)"
  shows "post_ids \<noteq> [] \<and> (\<exists>lens. post_lengths posts post_ids = Inr lens)"
proof (cases "post_lengths posts post_ids")
  case (Inl e)
  with assms show ?thesis by (simp add: print_statistics_failure)
next
  case (Inr lens)
  with assms show ?thesis by (auto simp: print_statistics_Nil)
qed

text \<open>
  C7. Whenever the statistics are printed, the standard deviation line holds, formatted
  to two decimals, the sample standard deviation of the post lengths for more than one
  post, the square root of the sum of the squared deviations from the mean divided by
  \<open>n - 1\<close>, and the integer 0 otherwise. A list of exactly one post that the post map
  holds is printed with 0 there. With no post the call ends at line 67 and prints
  nothing; the expression of line 71 is 0 for every post count up to 1.
\<close>

theorem std_dev_length_bessel:
  "(print_statistics post_ids posts pts pta = (Inr lines, st) \<longrightarrow>
      (\<exists>lens. post_lengths posts post_ids = Inr lens \<and> length lens = length post_ids \<and>
         lines ! 7 = [Lit ''Std. dev. of post length (in words): '',
           Fmt (if length post_ids > 1
                then PFloat (sqrt ((\<Sum>x\<leftarrow>lens. (real_of_int x - mean lens)\<^sup>2)
                       / real (length post_ids - 1)))
                else PInt 0) Fixed2]))
   \<and> (map_of posts pid = Some text \<longrightarrow>
        (\<exists>lines st. print_statistics [pid] posts pts pta = (Inr lines, st) \<and>
           lines ! 7 = [Lit ''Std. dev. of post length (in words): '', Fmt (PInt 0) Fixed2]))
   \<and> (n_of_posts \<le> 1 \<longrightarrow> std_dev_length data n_of_posts = Inr (PInt 0))"
proof (intro conjI impI)
  assume "n_of_posts \<le> 1"
  then show "std_dev_length data n_of_posts = Inr (PInt 0)"
    by (simp add: std_dev_length_def)
next
  assume ok: "print_statistics post_ids posts pts pta = (Inr lines, st)"
  from print_statistics_Inr_D [OF ok] obtain lens where
    ne: "post_ids \<noteq> []" and lens: "post_lengths posts post_ids = Inr lens" by blast
  from print_statistics_success [OF lens ne, of pts pta] ok
  have "lines ! 7 = [Lit ''Std. dev. of post length (in words): '',
           Fmt (if length post_ids > 1
                then PFloat (sqrt ((\<Sum>x\<leftarrow>lens. (real_of_int x - mean lens)\<^sup>2)
                       / real (length post_ids - 1)))
                else PInt 0) Fixed2]"
    by (auto simp: statistics_lines_def)
  with lens length_post_lengths [OF lens]
  show "\<exists>lens. post_lengths posts post_ids = Inr lens \<and> length lens = length post_ids \<and>
         lines ! 7 = [Lit ''Std. dev. of post length (in words): '',
           Fmt (if length post_ids > 1
                then PFloat (sqrt ((\<Sum>x\<leftarrow>lens. (real_of_int x - mean lens)\<^sup>2)
                       / real (length post_ids - 1)))
                else PInt 0) Fixed2]"
    by blast
next
  assume "map_of posts pid = Some text"
  then have lens: "post_lengths posts [pid] = Inr [int (length (split text))]"
    by (simp add: dict_getitem_def)
  have ne: "[pid] \<noteq> []" by simp
  from print_statistics_success [OF lens ne, of pts pta]
  show "\<exists>lines st. print_statistics [pid] posts pts pta = (Inr lines, st) \<and>
           lines ! 7 = [Lit ''Std. dev. of post length (in words): '', Fmt (PInt 0) Fixed2]"
    by (auto simp: statistics_lines_def)
qed

theorem std_dev_length_bessel_witness:
  "print_statistics [''p1'', ''p2''] [(''p1'', ''a b c''), (''p2'', ''a b c d'')] [] [] =
    (Inr [[Lit ''Total number of posts: '', Fmt (PInt 2) Plain],
      [Lit ''Total number of explanations (all status): '', Fmt (PInt 0) Plain],
      [Lit ''Avg. number of explanations per post: '', Fmt (PFloat 0) Fixed2],
      [Lit ''Avg. number of symptoms per post (status=1 only): '', Fmt (PFloat 0) Fixed2],
      [Lit ''Number of hard negatives: '', Fmt (PInt 2) Plain],
      [Lit ''Avg. length of post (in words): '', Fmt (PFloat (7 / 2)) Fixed2],
      [Lit ''Median length of post (in words): '', Fmt (PFloat (7 / 2)) Plain],
      [Lit ''Std. dev. of post length (in words): '', Fmt (PFloat (sqrt (1 / 2))) Fixed2],
      [Lit ''Min. length of post (in words): '', Fmt (PInt 3) Plain],
      [Lit ''Max. length of post (in words): '', Fmt (PInt 4) Plain]],
     [(''p1'', {}), (''p2'', {})], [(''p1'', []), (''p2'', [])])
   \<and> (\<exists>lens. post_lengths [(''p1'', ''a b c''), (''p2'', ''a b c d'')] [''p1'', ''p2''] = Inr lens
        \<and> length lens = 2
        \<and> sqrt (1 / 2) = sqrt ((\<Sum>x\<leftarrow>lens. (real_of_int x - mean lens)\<^sup>2) / real (2 - 1)))
   \<and> map_of [(''p1'', ''a b c'')] ''p1'' = Some ''a b c''
   \<and> (\<exists>lines st. print_statistics [''p1''] [(''p1'', ''a b c'')] [] [] = (Inr lines, st) \<and>
        lines ! 7 = [Lit ''Std. dev. of post length (in words): '', Fmt (PInt 0) Fixed2])
   \<and> (0 :: int) \<le> 1
   \<and> std_dev_length [] 0 = Inr (PInt 0)"
proof -
  note ok = print_statistics_B
  have zero: "(0 :: int) \<le> 1" by simp
  note four = std_dev_length_bessel [where n_of_posts = 0 and data = "[]",
      THEN conjunct2, THEN conjunct2, THEN mp, OF zero]
  have one: "map_of [(''p1'', ''a b c'')] ''p1'' = Some ''a b c''" by simp
  note inst = std_dev_length_bessel [of "[''p1'', ''p2'']"
      "[(''p1'', ''a b c''), (''p2'', ''a b c d'')]" "[]" "[]"
      "[[Lit ''Total number of posts: '', Fmt (PInt 2) Plain],
      [Lit ''Total number of explanations (all status): '', Fmt (PInt 0) Plain],
      [Lit ''Avg. number of explanations per post: '', Fmt (PFloat 0) Fixed2],
      [Lit ''Avg. number of symptoms per post (status=1 only): '', Fmt (PFloat 0) Fixed2],
      [Lit ''Number of hard negatives: '', Fmt (PInt 2) Plain],
      [Lit ''Avg. length of post (in words): '', Fmt (PFloat (7 / 2)) Fixed2],
      [Lit ''Median length of post (in words): '', Fmt (PFloat (7 / 2)) Plain],
      [Lit ''Std. dev. of post length (in words): '', Fmt (PFloat (sqrt (1 / 2))) Fixed2],
      [Lit ''Min. length of post (in words): '', Fmt (PInt 3) Plain],
      [Lit ''Max. length of post (in words): '', Fmt (PInt 4) Plain]]"
      "([(''p1'', {}), (''p2'', {})], [(''p1'', []), (''p2'', [])])" "''p1''" "''a b c''"]
  from inst [THEN conjunct1, THEN mp, OF ok] obtain lens where
    l: "post_lengths [(''p1'', ''a b c''), (''p2'', ''a b c d'')] [''p1'', ''p2''] = Inr lens"
    and n: "length lens = length [''p1'', ''p2'']"
    and v: "PFloat (sqrt (1 / 2)) = PFloat (sqrt ((\<Sum>x\<leftarrow>lens. (real_of_int x - mean lens)\<^sup>2)
        / real (length [''p1'', ''p2''] - 1)))"
    by auto
  from n have n2: "length lens = 2" by simp
  from v have v2: "sqrt (1 / 2) = sqrt ((\<Sum>x\<leftarrow>lens. (real_of_int x - mean lens)\<^sup>2) / real (2 - 1))"
    by simp
  from l n2 v2 have two: "\<exists>lens. post_lengths [(''p1'', ''a b c''), (''p2'', ''a b c d'')] [''p1'', ''p2''] = Inr lens
        \<and> length lens = 2
        \<and> sqrt (1 / 2) = sqrt ((\<Sum>x\<leftarrow>lens. (real_of_int x - mean lens)\<^sup>2) / real (2 - 1))"
    by (intro exI conjI)
  from std_dev_length_bessel [of "[]" "[(''p1'', ''a b c'')]" "[]" "[]" "[]" "([], [])"
      "''p1''" "''a b c''", THEN conjunct2, THEN conjunct1, THEN mp, OF one]
  have three: "\<exists>lines st. print_statistics [''p1''] [(''p1'', ''a b c'')] [] [] = (Inr lines, st) \<and>
        lines ! 7 = [Lit ''Std. dev. of post length (in words): '', Fmt (PInt 0) Fixed2]" .
  from ok one two three zero four show ?thesis by (intro conjI)
qed

text \<open>
  C9, refuted as stated: two posts of 3 and 4 words have the median 3.5, a float, and
  its line prints it with the plain format, not with two decimals.
\<close>

theorem median_not_two_decimals:
  "print_statistics [''p1'', ''p2''] [(''p1'', ''a b c''), (''p2'', ''a b c d'')] [] [] =
    (Inr [[Lit ''Total number of posts: '', Fmt (PInt 2) Plain],
      [Lit ''Total number of explanations (all status): '', Fmt (PInt 0) Plain],
      [Lit ''Avg. number of explanations per post: '', Fmt (PFloat 0) Fixed2],
      [Lit ''Avg. number of symptoms per post (status=1 only): '', Fmt (PFloat 0) Fixed2],
      [Lit ''Number of hard negatives: '', Fmt (PInt 2) Plain],
      [Lit ''Avg. length of post (in words): '', Fmt (PFloat (7 / 2)) Fixed2],
      [Lit ''Median length of post (in words): '', Fmt (PFloat (7 / 2)) Plain],
      [Lit ''Std. dev. of post length (in words): '', Fmt (PFloat (sqrt (1 / 2))) Fixed2],
      [Lit ''Min. length of post (in words): '', Fmt (PInt 3) Plain],
      [Lit ''Max. length of post (in words): '', Fmt (PInt 4) Plain]],
     [(''p1'', {}), (''p2'', {})], [(''p1'', []), (''p2'', [])])
   \<and> \<not> list_all two_decimals
        [Lit ''Median length of post (in words): '', Fmt (PFloat (7 / 2)) Plain]
   \<and> \<not> list_all (list_all two_decimals)
       [[Lit ''Total number of posts: '', Fmt (PInt 2) Plain],
        [Lit ''Total number of explanations (all status): '', Fmt (PInt 0) Plain],
        [Lit ''Avg. number of explanations per post: '', Fmt (PFloat 0) Fixed2],
        [Lit ''Avg. number of symptoms per post (status=1 only): '', Fmt (PFloat 0) Fixed2],
        [Lit ''Number of hard negatives: '', Fmt (PInt 2) Plain],
        [Lit ''Avg. length of post (in words): '', Fmt (PFloat (7 / 2)) Fixed2],
        [Lit ''Median length of post (in words): '', Fmt (PFloat (7 / 2)) Plain],
        [Lit ''Std. dev. of post length (in words): '', Fmt (PFloat (sqrt (1 / 2))) Fixed2],
        [Lit ''Min. length of post (in words): '', Fmt (PInt 3) Plain],
        [Lit ''Max. length of post (in words): '', Fmt (PInt 4) Plain]]"
  using print_statistics_B by simp

text \<open>
  C9, amended. Whenever the statistics are printed they are ten lines, each a label and
  one value. The three averages and the standard deviation are formatted to two
  decimals. The median is printed in the plain format: an int when the number of posts is
  odd, and a float that is a half of an int when it is even. The two counts, the number
  of hard negatives, the minimum and the maximum are ints in the plain format.
\<close>

theorem statistics_block_formats:
  "print_statistics post_ids posts pts pta = (Inr lines, st) \<Longrightarrow>
     \<exists>n_expl avg_expl avg_sympt n_hard avg_len median_len std_dev_len min_len max_len.
       lines =
        [[Lit ''Total number of posts: '', Fmt (PInt (int (length post_ids))) Plain],
         [Lit ''Total number of explanations (all status): '', Fmt (PInt n_expl) Plain],
         [Lit ''Avg. number of explanations per post: '', Fmt (PFloat avg_expl) Fixed2],
         [Lit ''Avg. number of symptoms per post (status=1 only): '',
          Fmt (PFloat avg_sympt) Fixed2],
         [Lit ''Number of hard negatives: '', Fmt (PInt n_hard) Plain],
         [Lit ''Avg. length of post (in words): '', Fmt (PFloat avg_len) Fixed2],
         [Lit ''Median length of post (in words): '', Fmt median_len Plain],
         [Lit ''Std. dev. of post length (in words): '', Fmt std_dev_len Fixed2],
         [Lit ''Min. length of post (in words): '', Fmt (PInt min_len) Plain],
         [Lit ''Max. length of post (in words): '', Fmt (PInt max_len) Plain]]
       \<and> (if odd (length post_ids) then \<exists>i. median_len = PInt i
           else \<exists>i. median_len = PFloat (real_of_int i / 2))"
proof -
  assume ok: "print_statistics post_ids posts pts pta = (Inr lines, st)"
  from print_statistics_Inr_D [OF ok] obtain lens where
    ne: "post_ids \<noteq> []" and lens: "post_lengths posts post_ids = Inr lens" by blast
  have len: "length lens = length post_ids" using lens by (rule length_post_lengths)
  with ne have lne: "lens \<noteq> []" by auto
  from print_statistics_success [OF lens ne, of pts pta] ok obtain med mn mx n_expl a1 a2 n_hard a3 sd
    where med: "median lens = Inr med"
      and lines: "lines = statistics_lines (int (length post_ids)) n_expl (PFloat a1) (PFloat a2)
                    n_hard (PFloat a3) med sd mn mx"
    by auto
  from median_Inr [OF lne] med len
  have "if odd (length post_ids) then \<exists>i. med = PInt i
        else \<exists>i. med = PFloat (real_of_int i / 2)"
    by auto
  with lines show ?thesis
    unfolding statistics_lines_def by blast
qed

theorem statistics_block_formats_witness:
  "print_statistics [''p1'', ''p2''] [(''p1'', ''a b c''), (''p2'', ''a b c d'')] [] [] =
    (Inr [[Lit ''Total number of posts: '', Fmt (PInt 2) Plain],
      [Lit ''Total number of explanations (all status): '', Fmt (PInt 0) Plain],
      [Lit ''Avg. number of explanations per post: '', Fmt (PFloat 0) Fixed2],
      [Lit ''Avg. number of symptoms per post (status=1 only): '', Fmt (PFloat 0) Fixed2],
      [Lit ''Number of hard negatives: '', Fmt (PInt 2) Plain],
      [Lit ''Avg. length of post (in words): '', Fmt (PFloat (7 / 2)) Fixed2],
      [Lit ''Median length of post (in words): '', Fmt (PFloat (7 / 2)) Plain],
      [Lit ''Std. dev. of post length (in words): '', Fmt (PFloat (sqrt (1 / 2))) Fixed2],
      [Lit ''Min. length of post (in words): '', Fmt (PInt 3) Plain],
      [Lit ''Max. length of post (in words): '', Fmt (PInt 4) Plain]],
     [(''p1'', {}), (''p2'', {})], [(''p1'', []), (''p2'', [])])
   \<and> (\<exists>i. PFloat (7 / 2) = PFloat (real_of_int i / 2))"
proof -
  note ok = print_statistics_B
  from statistics_block_formats [OF ok] have "\<exists>i. PFloat (7 / 2) = PFloat (real_of_int i / 2)"
    by simp
  with ok show ?thesis by simp
qed

section \<open>Scenario A\<close>

text \<open>
  C1. On the posts and annotations of Scenario A the program loads the two posts, groups
  the three annotations, finds the post lengths 3 and 5 and prints: 2 posts, 3
  explanations, the averages 3/2 (printed 1.50) and 1 (printed 1.00), 0 hard negatives,
  the mean length 4 (printed 4.00), the median 4 (the float 4.0, printed plain), the
  standard deviation, the minimum 3, the maximum 5, an empty line, and the distribution
  with \<open>DEPRESSED_MOOD\<close> and \<open>WORTHLESSNESS\<close> at 1 each, whatever the iteration
  order of sets is.
\<close>

theorem scenario_A:
  assumes "valid_iter_order iter_order"
  shows "load_full_posts [(''p1'', ''a b c''), (''p2'', ''a b c d e'')]
      = [(''p1'', ''a b c''), (''p2'', ''a b c d e'')]
   \<and> load_annotations [(''p1'', ''DEPRESSED_MOOD'', ''1''), (''p1'', ''ANHEDONIA'', ''0''),
        (''p2'', ''WORTHLESSNESS'', ''1'')]
      = ([(''p1'', {''DEPRESSED_MOOD''}), (''p2'', {''WORTHLESSNESS''})],
         [(''p1'', [(''DEPRESSED_MOOD'', ''1''), (''ANHEDONIA'', ''0'')]),
          (''p2'', [(''WORTHLESSNESS'', ''1'')])])
   \<and> post_lengths [(''p1'', ''a b c''), (''p2'', ''a b c d e'')] [''p1'', ''p2''] = Inr [3, 5]
   \<and> main iter_order [(''p1'', ''a b c''), (''p2'', ''a b c d e'')]
        [(''p1'', ''DEPRESSED_MOOD'', ''1''), (''p1'', ''ANHEDONIA'', ''0''),
         (''p2'', ''WORTHLESSNESS'', ''1'')]
      = Inr [[Lit ''Total number of posts: '', Fmt (PInt 2) Plain],
          [Lit ''Total number of explanations (all status): '', Fmt (PInt 3) Plain],
          [Lit ''Avg. number of explanations per post: '', Fmt (PFloat (3 / 2)) Fixed2],
          [Lit ''Avg. number of symptoms per post (status=1 only): '', Fmt (PFloat 1) Fixed2],
          [Lit ''Number of hard negatives: '', Fmt (PInt 0) Plain],
          [Lit ''Avg. length of post (in words): '', Fmt (PFloat 4) Fixed2],
          [Lit ''Median length of post (in words): '', Fmt (PFloat 4) Plain],
          [Lit ''Std. dev. of post length (in words): '', Fmt (PFloat (sqrt 2)) Fixed2],
          [Lit ''Min. length of post (in words): '', Fmt (PInt 3) Plain],
          [Lit ''Max. length of post (in words): '', Fmt (PInt 5) Plain],
          [],
          [Lit ''Posts per symptom (status=1 only):''],
          [Lit ''  '', Lit ''DEPRESSED_MOOD'', Lit '': '', Fmt (PInt 1) Plain],
          [Lit ''  '', Lit ''WORTHLESSNESS'', Lit '': '', Fmt (PInt 1) Plain]]"
proof -
  have "main iter_order [(''p1'', ''a b c''), (''p2'', ''a b c d e'')]
        [(''p1'', ''DEPRESSED_MOOD'', ''1''), (''p1'', ''ANHEDONIA'', ''0''),
         (''p2'', ''WORTHLESSNESS'', ''1'')]
      = Inr [[Lit ''Total number of posts: '', Fmt (PInt 2) Plain],
          [Lit ''Total number of explanations (all status): '', Fmt (PInt 3) Plain],
          [Lit ''Avg. number of explanations per post: '', Fmt (PFloat (3 / 2)) Fixed2],
          [Lit ''Avg. number of symptoms per post (status=1 only): '', Fmt (PFloat 1) Fixed2],
          [Lit ''Number of hard negatives: '', Fmt (PInt 0) Plain],
          [Lit ''Avg. length of post (in words): '', Fmt (PFloat 4) Fixed2],
          [Lit ''Median length of post (in words): '', Fmt (PFloat 4) Plain],
          [Lit ''Std. dev. of post length (in words): '', Fmt (PFloat (sqrt 2)) Fixed2],
          [Lit ''Min. length of post (in words): '', Fmt (PInt 3) Plain],
          [Lit ''Max. length of post (in words): '', Fmt (PInt 5) Plain],
          [],
          [Lit ''Posts per symptom (status=1 only):''],
          [Lit ''  '', Lit ''DEPRESSED_MOOD'', Lit '': '', Fmt (PInt 1) Plain],
          [Lit ''  '', Lit ''WORTHLESSNESS'', Lit '': '', Fmt (PInt 1) Plain]]"
    unfolding main_def Let_def load_full_posts_A load_annotations_A
    by (simp add: print_statistics_A print_symptom_distribution_A [OF assms])
  then show ?thesis
    by (intro conjI load_full_posts_A load_annotations_A post_lengths_A)
qed

theorem scenario_A_witness:
  "valid_iter_order sorted_list_of_set
   \<and> main sorted_list_of_set [(''p1'', ''a b c''), (''p2'', ''a b c d e'')]
        [(''p1'', ''DEPRESSED_MOOD'', ''1''), (''p1'', ''ANHEDONIA'', ''0''),
         (''p2'', ''WORTHLESSNESS'', ''1'')]
      = Inr [[Lit ''Total number of posts: '', Fmt (PInt 2) Plain],
          [Lit ''Total number of explanations (all status): '', Fmt (PInt 3) Plain],
          [Lit ''Avg. number of explanations per post: '', Fmt (PFloat (3 / 2)) Fixed2],
          [Lit ''Avg. number of symptoms per post (status=1 only): '', Fmt (PFloat 1) Fixed2],
          [Lit ''Number of hard negatives: '', Fmt (PInt 0) Plain],
          [Lit ''Avg. length of post (in words): '', Fmt (PFloat 4) Fixed2],
          [Lit ''Median length of post (in words): '', Fmt (PFloat 4) Plain],
          [Lit ''Std. dev. of post length (in words): '', Fmt (PFloat (sqrt 2)) Fixed2],
          [Lit ''Min. length of post (in words): '', Fmt (PInt 3) Plain],
          [Lit ''Max. length of post (in words): '', Fmt (PInt 5) Plain],
          [],
          [Lit ''Posts per symptom (status=1 only):''],
          [Lit ''  '', Lit ''DEPRESSED_MOOD'', Lit '': '', Fmt (PInt 1) Plain],
          [Lit ''  '', Lit ''WORTHLESSNESS'', Lit '': '', Fmt (PInt 1) Plain]]"
  using scenario_A [OF valid_iter_order_sorted] valid_iter_order_sorted by simp

section \<open>The symptom distribution\<close>

subsection \<open>The counter\<close>

lemma symptom_counter_foldl:
  "foldl (\<lambda>counter symptoms. foldl counter_incr counter (iter_order symptoms)) c (map snd pts)
     = foldl counter_incr c (concat (map (iter_order \<circ> snd) pts))"
  by (induction pts arbitrary: c) simp_all

lemma symptom_counter_eq:
  "symptom_counter iter_order pts = foldl counter_incr [] (concat (map (iter_order \<circ> snd) pts))"
  unfolding symptom_counter_def by (rule symptom_counter_foldl)

lemma map_of_counter_incr:
  "map_of (counter_incr c s) = (map_of c)(s \<mapsto> (case map_of c s of None \<Rightarrow> 0 | Some n \<Rightarrow> n) + 1)"
  by (simp add: counter_incr_def map_of_dict_setitem)

lemma keys_counter_incr:
  "map fst (counter_incr c s) = (if s \<in> fst ` set c then map fst c else map fst c @ [s])"
  by (simp add: counter_incr_def keys_dict_setitem)

lemma map_of_foldl_counter_incr:
  "map_of (foldl counter_incr c xs) s =
     (if count_list xs s = 0 then map_of c s
      else Some ((case map_of c s of None \<Rightarrow> 0 | Some n \<Rightarrow> n) + int (count_list xs s)))"
proof (induction xs arbitrary: c)
  case Nil
  show ?case by simp
next
  case (Cons x xs)
  show ?case
    by (cases "x = s") (simp_all add: Cons map_of_counter_incr)
qed

lemma remdups_snoc: "remdups (zs @ [x]) = remdups (filter (\<lambda>y. y \<noteq> x) zs) @ [x]"
  by (induction zs) auto

lemma first_occurrences_Cons:
  "rev (remdups (rev (x # ys))) = x # rev (remdups (rev (filter (\<lambda>y. y \<noteq> x) ys)))"
  by (simp add: remdups_snoc rev_filter)

lemma keys_foldl_counter_incr:
  "map fst (foldl counter_incr c xs)
     = map fst c @ rev (remdups (rev (filter (\<lambda>x. x \<notin> fst ` set c) xs)))"
proof (induction xs arbitrary: c)
  case Nil
  show ?case by simp
next
  case (Cons x xs)
  show ?case
  proof (cases "x \<in> fst ` set c")
    case True
    then have k: "map fst (counter_incr c x) = map fst c"
      by (simp add: keys_counter_incr)
    then have "set (map fst (counter_incr c x)) = set (map fst c)" by simp
    then have s: "fst ` set (counter_incr c x) = fst ` set c" by simp
    show ?thesis
      using True by (simp add: Cons k s)
  next
    case False
    then have k: "map fst (counter_incr c x) = map fst c @ [x]"
      by (simp add: keys_counter_incr)
    then have "set (map fst (counter_incr c x)) = set (map fst c @ [x])" by simp
    then have s: "fst ` set (counter_incr c x) = insert x (fst ` set c)" by simp
    have f: "filter (\<lambda>y. y \<noteq> x) (filter (\<lambda>y. y \<notin> fst ` set c) xs)
               = filter (\<lambda>y. y \<notin> insert x (fst ` set c)) xs"
      by (simp add: conj_commute)
    have "map fst (foldl counter_incr c (x # xs))
            = (map fst c @ [x]) @ rev (remdups (rev (filter (\<lambda>y. y \<notin> insert x (fst ` set c)) xs)))"
      by (simp add: Cons k s)
    also have "\<dots> = map fst c @ rev (remdups (rev (x # filter (\<lambda>y. y \<notin> fst ` set c) xs)))"
      unfolding first_occurrences_Cons f by simp
    finally show ?thesis using False by simp
  qed
qed

lemma keys_symptom_counter:
  "map fst (symptom_counter iter_order pts)
     = rev (remdups (rev (concat (map (iter_order \<circ> snd) pts))))"
  by (simp add: symptom_counter_eq keys_foldl_counter_incr)

lemma distinct_keys_symptom_counter: "distinct (map fst (symptom_counter iter_order pts))"
  by (simp add: keys_symptom_counter)

lemma map_of_symptom_counter:
  "map_of (symptom_counter iter_order pts) s =
     (if count_list (concat (map (iter_order \<circ> snd) pts)) s = 0 then None
      else Some (int (count_list (concat (map (iter_order \<circ> snd) pts)) s)))"
  by (simp add: symptom_counter_eq map_of_foldl_counter_incr)

subsection \<open>most_common\<close>

lemma set_most_common: "set (most_common c) = set c"
  by (simp add: most_common_def)

lemma distinct_keys_most_common:
  assumes "distinct (map fst c)"
  shows "distinct (map fst (most_common c))"
proof -
  from assms have "distinct c" and "inj_on fst (set c)"
    by (simp_all add: distinct_map)
  then show ?thesis
    by (simp add: most_common_def distinct_map)
qed

lemma map_of_most_common:
  assumes "distinct (map fst c)"
  shows "map_of (most_common c) = map_of c"
  using assms distinct_keys_most_common [OF assms] set_most_common [of c]
  by (simp add: map_of_inject_set)

lemma sorted_most_common: "sorted_wrt (\<lambda>a b. a \<ge> b) (map snd (most_common c))"
proof -
  have "sorted (map snd (sort_key snd (rev c)))" by (rule sorted_sort_key)
  then show ?thesis
    by (simp add: most_common_def rev_map [symmetric] sorted_wrt_rev)
qed

lemma stable_most_common:
  "filter (\<lambda>p. snd p = k) (most_common c) = filter (\<lambda>p. snd p = k) c"
proof -
  have "filter (\<lambda>p. snd p = k) (sort_key snd (rev c)) = filter (\<lambda>p. snd p = k) (rev c)"
    by (rule sort_key_stable)
  then show ?thesis
    by (simp add: most_common_def rev_filter [symmetric])
qed

subsection \<open>Coverage\<close>

lemma count_list_concat:
  "count_list (concat xss) c = sum_list (map (\<lambda>xs. count_list xs c) xss)"
  by (induction xss) simp_all

lemma count_list_distinct:
  "distinct xs \<Longrightarrow> count_list xs c = (if c \<in> set xs then 1 else 0)"
  by (induction xs) auto

lemma sum_list_indicator:
  "sum_list (map (\<lambda>x. if P x then 1 else 0) xs) = length (filter P xs)"
  by (induction xs) simp_all

lemma coverage_count:
  assumes v: "valid_iter_order iter_order"
    and d: "distinct (map fst pts)"
    and f: "\<forall>S \<in> snd ` set pts. finite S"
  shows "count_list (concat (map (iter_order \<circ> snd) pts)) c
           = card {pid. c \<in> dd_lookup {} pts pid}"
proof -
  have one: "count_list (iter_order (snd e)) c = (if c \<in> snd e then 1 else 0)"
    if "e \<in> set pts" for e
  proof -
    from that f have "finite (snd e)" by auto
    with v have "set (iter_order (snd e)) = snd e" "distinct (iter_order (snd e))"
      unfolding valid_iter_order_def by blast+
    then show ?thesis by (simp add: count_list_distinct)
  qed
  have "count_list (concat (map (iter_order \<circ> snd) pts)) c
          = sum_list (map (\<lambda>e. count_list (iter_order (snd e)) c) pts)"
    by (simp add: count_list_concat comp_def)
  also have "\<dots> = sum_list (map (\<lambda>e. if c \<in> snd e then 1 else 0) pts)"
    using one by (intro arg_cong [where f = sum_list] map_cong) auto
  also have "\<dots> = length (filter (\<lambda>e. c \<in> snd e) pts)"
    by (rule sum_list_indicator)
  also have "\<dots> = length (map fst (filter (\<lambda>e. c \<in> snd e) pts))" by simp
  also have "\<dots> = card (set (map fst (filter (\<lambda>e. c \<in> snd e) pts)))"
    by (rule distinct_card [symmetric]) (rule distinct_map_filter [OF d])
  also have "set (map fst (filter (\<lambda>e. c \<in> snd e) pts)) = {pid. c \<in> dd_lookup {} pts pid}"
  proof (intro set_eqI iffI)
    fix pid
    assume "pid \<in> set (map fst (filter (\<lambda>e. c \<in> snd e) pts))"
    then obtain S where "(pid, S) \<in> set pts" "c \<in> S" by auto
    with d have "map_of pts pid = Some S" by simp
    with \<open>c \<in> S\<close> show "pid \<in> {pid. c \<in> dd_lookup {} pts pid}"
      by (simp add: dd_lookup_def)
  next
    fix pid
    assume "pid \<in> {pid. c \<in> dd_lookup {} pts pid}"
    then obtain S where "map_of pts pid = Some S" "c \<in> S"
      by (cases "map_of pts pid") (auto simp: dd_lookup_def)
    then have "(pid, S) \<in> set pts" by (auto dest: map_of_SomeD)
    with \<open>c \<in> S\<close> show "pid \<in> set (map fst (filter (\<lambda>e. c \<in> snd e) pts))"
      by force
  qed
  finally show ?thesis .
qed

subsection \<open>The ranking\<close>

text \<open>
  C8. For every confirmed-symptom grouping (a dict, so with distinct keys, of finite
  sets) the distribution block is the header followed by one line for each symptom of
  the ranking \<^verbatim>\<open>counter.most_common()\<close>. A symptom is in the ranking when some post's set
  holds it, and its count is the number of posts whose set holds it. The counts of the
  ranking never increase along it. Symptoms with the same count stand in the order of the
  counter, and the counter holds the symptoms in the order in which the iteration over
  the sets of the posts meets them first.
\<close>

theorem symptom_distribution_ranking:
  assumes "valid_iter_order iter_order"
    and "distinct (map fst pts)"
    and "\<forall>S \<in> snd ` set pts. finite S"
  shows "(let ranking = most_common (symptom_counter iter_order pts) in
     print_symptom_distribution iter_order pts
       = [Lit ''Posts per symptom (status=1 only):'']
         # map (\<lambda>(symptom, count). [Lit ''  '', Lit symptom, Lit '': '', Fmt (PInt count) Plain])
             ranking
     \<and> (\<forall>c. map_of ranking c =
            (if card {pid. c \<in> dd_lookup {} pts pid} = 0 then None
             else Some (int (card {pid. c \<in> dd_lookup {} pts pid}))))
     \<and> distinct (map fst ranking)
     \<and> sorted_wrt (\<lambda>a b. a \<ge> b) (map snd ranking)
     \<and> (\<forall>k. filter (\<lambda>p. snd p = k) ranking
             = filter (\<lambda>p. snd p = k) (symptom_counter iter_order pts))
     \<and> map fst (symptom_counter iter_order pts)
         = rev (remdups (rev (concat (map (iter_order \<circ> snd) pts)))))"
proof -
  have "map_of (most_common (symptom_counter iter_order pts)) c =
            (if card {pid. c \<in> dd_lookup {} pts pid} = 0 then None
             else Some (int (card {pid. c \<in> dd_lookup {} pts pid})))" for c
    unfolding map_of_most_common [OF distinct_keys_symptom_counter] map_of_symptom_counter
      coverage_count [OF assms]
    by (rule refl)
  then show ?thesis
    unfolding Let_def
    by (intro conjI allI)
      (simp_all add: print_symptom_distribution_def sorted_most_common stable_most_common
        keys_symptom_counter distinct_keys_most_common distinct_keys_symptom_counter)
qed

theorem symptom_distribution_ranking_witness:
  "valid_iter_order sorted_list_of_set
   \<and> distinct (map fst [(''p1'', {''C''}), (''p2'', {''A''}), (''p3'', {''B''}),
        (''p4'', {''A''}), (''p5'', {''B''})])
   \<and> list_all (\<lambda>e. finite (snd e)) [(''p1'', {''C''}), (''p2'', {''A''}), (''p3'', {''B''}),
        (''p4'', {''A''}), (''p5'', {''B''})]
   \<and> symptom_counter sorted_list_of_set [(''p1'', {''C''}), (''p2'', {''A''}),
        (''p3'', {''B''}), (''p4'', {''A''}), (''p5'', {''B''})]
       = [(''C'', 1), (''A'', 2), (''B'', 2)]
   \<and> print_symptom_distribution sorted_list_of_set [(''p1'', {''C''}), (''p2'', {''A''}),
        (''p3'', {''B''}), (''p4'', {''A''}), (''p5'', {''B''})]
       = [[Lit ''Posts per symptom (status=1 only):''],
          [Lit ''  '', Lit ''A'', Lit '': '', Fmt (PInt 2) Plain],
          [Lit ''  '', Lit ''B'', Lit '': '', Fmt (PInt 2) Plain],
          [Lit ''  '', Lit ''C'', Lit '': '', Fmt (PInt 1) Plain]]
   \<and> int (card {pid. ''A'' \<in> dd_lookup {} [(''p1'', {''C''}), (''p2'', {''A''}),
        (''p3'', {''B''}), (''p4'', {''A''}), (''p5'', {''B''})] pid}) = 2"
proof -
  let ?pts = "[(''p1'', {''C''}), (''p2'', {''A''}), (''p3'', {''B''}),
        (''p4'', {''A''}), (''p5'', {''B''})]"
  note v = valid_iter_order_sorted
  have d: "distinct (map fst ?pts)" by simp
  have f: "\<forall>S \<in> snd ` set ?pts. finite S" by simp
  have l: "list_all (\<lambda>e. finite (snd e)) ?pts" by simp
  have c: "symptom_counter sorted_list_of_set ?pts = [(''C'', 1), (''A'', 2), (''B'', 2)]"
    by (simp add: symptom_counter_def iter_order_singleton [OF v] counter_incr_def)
  have r: "most_common [(''C'', 1), (''A'', 2), (''B'', 2 :: int)]
             = [(''A'', 2), (''B'', 2), (''C'', 1)]"
    by (simp add: most_common_def)
  note t = symptom_distribution_ranking [OF v d f, unfolded Let_def c r]
  from t have p: "print_symptom_distribution sorted_list_of_set ?pts
       = [[Lit ''Posts per symptom (status=1 only):''],
          [Lit ''  '', Lit ''A'', Lit '': '', Fmt (PInt 2) Plain],
          [Lit ''  '', Lit ''B'', Lit '': '', Fmt (PInt 2) Plain],
          [Lit ''  '', Lit ''C'', Lit '': '', Fmt (PInt 1) Plain]]"
    by simp
  from t have "map_of [(''A'', 2), (''B'', 2), (''C'', 1 :: int)] ''A'' =
            (if card {pid. ''A'' \<in> dd_lookup {} ?pts pid} = 0 then None
             else Some (int (card {pid. ''A'' \<in> dd_lookup {} ?pts pid})))"
    by blast
  then have n: "int (card {pid. ''A'' \<in> dd_lookup {} ?pts pid}) = 2"
    by (simp split: if_splits)
  from v d l c p n show ?thesis by (intro conjI)
qed

section \<open>The whole program\<close>

lemma distinct_keys_dd_getitem:
  assumes "distinct (map fst d)"
  shows "distinct (map fst (snd (dd_getitem dflt d k)))"
proof (cases "k \<in> fst ` set d")
  case True
  with assms show ?thesis by (simp add: dd_getitem_present)
next
  case False
  with assms show ?thesis by (simp add: dd_getitem_absent)
qed

lemma distinct_keys_dd_set_add:
  "distinct (map fst d) \<Longrightarrow> distinct (map fst (dd_set_add d k x))"
  by (simp add: dd_set_add_def split_beta distinct_dict_setitem distinct_keys_dd_getitem)

lemma distinct_keys_annotation_step:
  "distinct (map fst (fst st)) \<Longrightarrow> distinct (map fst (fst (annotation_step st row)))"
  by (cases st; cases row) (simp add: annotation_step_def distinct_keys_dd_set_add)

lemma distinct_keys_load_annotations: "distinct (map fst (fst (load_annotations rows)))"
proof (induction rows rule: rev_induct)
  case Nil
  show ?case by (simp add: load_annotations_def)
next
  case (snoc r rows)
  then show ?case
    unfolding load_annotations_snoc by (rule distinct_keys_annotation_step)
qed

lemma finite_symptoms_load_annotations:
  "\<forall>S \<in> snd ` set (fst (load_annotations rows)). finite S"
proof
  fix S
  assume "S \<in> snd ` set (fst (load_annotations rows))"
  then obtain p where "(p, S) \<in> set (fst (load_annotations rows))" by auto
  then have "map_of (fst (load_annotations rows)) p = Some S"
    using distinct_keys_load_annotations [of rows] by simp
  then have "S = dd_lookup {} (fst (load_annotations rows)) p"
    by (simp add: dd_lookup_def)
  then have "S \<subseteq> (fst \<circ> snd) ` set rows"
    unfolding symptoms_load_annotations by force
  then show "finite S" by (rule finite_subset) simp
qed

lemma symptom_counter_dd_getitems:
  assumes "valid_iter_order iter_order"
  shows "symptom_counter iter_order (snd (dd_getitems {} pts ks)) = symptom_counter iter_order pts"
proof -
  obtain new where new: "snd (dd_getitems {} pts ks) = pts @ map (\<lambda>k. (k, {})) new"
    using snd_dd_getitems [of "{}" pts ks] by blast
  have e: "concat (map (\<lambda>x. []) new) = ([] :: string list)"
    by (induction new) simp_all
  show ?thesis
    by (simp add: new symptom_counter_eq comp_def iter_order_empty [OF assms] e)
qed

lemma ranking_load_annotations:
  assumes "valid_iter_order iter_order"
  shows "map_of (most_common (symptom_counter iter_order (fst (load_annotations rows)))) c =
     (if card {pid. (pid, c, ''1'') \<in> set rows \<and> c \<in> DSM5_SYMPTOM_NAMES} = 0 then None
      else Some (int (card {pid. (pid, c, ''1'') \<in> set rows \<and> c \<in> DSM5_SYMPTOM_NAMES})))"
proof -
  have "{pid. c \<in> dd_lookup {} (fst (load_annotations rows)) pid}
          = {pid. (pid, c, ''1'') \<in> set rows \<and> c \<in> DSM5_SYMPTOM_NAMES}"
    by (simp add: symptoms_load_annotations)
  then show ?thesis
    unfolding map_of_most_common [OF distinct_keys_symptom_counter] map_of_symptom_counter
      coverage_count [OF assms distinct_keys_load_annotations finite_symptoms_load_annotations]
    by simp
qed

text \<open>The run of \<^verbatim>\<open>main\<close> on a post file with at least one row.\<close>

lemma main_success:
  assumes "post_rows \<noteq> []"
  shows "\<exists>lens med mn mx.
     post_lengths (load_full_posts post_rows) (map fst (load_full_posts post_rows)) = Inr lens
     \<and> median lens = Inr med \<and> py_min lens = Inr mn \<and> py_max lens = Inr mx
     \<and> main iter_order post_rows annotation_rows =
        Inr (statistics_lines (int (length (map fst (load_full_posts post_rows))))
          (sum_list (map (\<lambda>pid. int (length (dd_lookup [] (snd (load_annotations annotation_rows)) pid)))
             (map fst (load_full_posts post_rows))))
          (PFloat (real_of_int (sum_list (map (\<lambda>pid. int (length
                (dd_lookup [] (snd (load_annotations annotation_rows)) pid)))
                (map fst (load_full_posts post_rows))))
             / real_of_int (int (length (map fst (load_full_posts post_rows))))))
          (PFloat (real_of_int (sum_list (map (\<lambda>pid. int (card
                (dd_lookup {} (fst (load_annotations annotation_rows)) pid)))
                (map fst (load_full_posts post_rows))))
             / real_of_int (int (length (map fst (load_full_posts post_rows))))))
          (int (length (filter (\<lambda>pid. dd_lookup {} (fst (load_annotations annotation_rows)) pid = {})
             (map fst (load_full_posts post_rows)))))
          (PFloat (real_of_int (sum_list lens)
             / real_of_int (int (length (map fst (load_full_posts post_rows))))))
          med
          (if length (map fst (load_full_posts post_rows)) > 1
           then PFloat (sqrt ((\<Sum>x\<leftarrow>lens. (real_of_int x - mean lens)\<^sup>2)
                  / real (length (map fst (load_full_posts post_rows)) - 1)))
           else PInt 0)
          mn mx
        @ [] # print_symptom_distribution iter_order
                 (snd (dd_getitems {} (fst (load_annotations annotation_rows))
                    (map fst (load_full_posts post_rows)))))"
proof -
  let ?posts = "load_full_posts post_rows"
  let ?ids = "map fst ?posts"
  obtain pts pta where la: "load_annotations annotation_rows = (pts, pta)"
    by (cases "load_annotations annotation_rows")
  have "set ?ids = fst ` set post_rows"
    by (simp add: keys_load_full_posts)
  with assms have ne: "?ids \<noteq> []" by auto
  have "set ?ids \<subseteq> fst ` set ?posts" by simp
  then obtain lens where lens: "post_lengths ?posts ?ids = Inr lens"
    using post_lengths_Inr_iff [of ?posts ?ids] by blast
  from print_statistics_success [OF lens ne, of pts pta] obtain med mn mx where
    m: "median lens = Inr med" "py_min lens = Inr mn" "py_max lens = Inr mx"
    and ps: "print_statistics ?ids ?posts pts pta =
       (Inr (statistics_lines (int (length ?ids))
          (sum_list (map (\<lambda>pid. int (length (dd_lookup [] pta pid))) ?ids))
          (PFloat (real_of_int (sum_list (map (\<lambda>pid. int (length (dd_lookup [] pta pid))) ?ids))
                   / real_of_int (int (length ?ids))))
          (PFloat (real_of_int (sum_list (map (\<lambda>pid. int (card (dd_lookup {} pts pid))) ?ids))
                   / real_of_int (int (length ?ids))))
          (int (length (filter (\<lambda>pid. dd_lookup {} pts pid = {}) ?ids)))
          (PFloat (real_of_int (sum_list lens) / real_of_int (int (length ?ids))))
          med
          (if length ?ids > 1
           then PFloat (sqrt ((\<Sum>x\<leftarrow>lens. (real_of_int x - mean lens)\<^sup>2)
                  / real (length ?ids - 1)))
           else PInt 0)
          mn mx),
        snd (dd_getitems {} pts ?ids), snd (dd_getitems [] pta ?ids))"
    by blast
  have "main iter_order post_rows annotation_rows =
       Inr (statistics_lines (int (length ?ids))
          (sum_list (map (\<lambda>pid. int (length (dd_lookup [] pta pid))) ?ids))
          (PFloat (real_of_int (sum_list (map (\<lambda>pid. int (length (dd_lookup [] pta pid))) ?ids))
                   / real_of_int (int (length ?ids))))
          (PFloat (real_of_int (sum_list (map (\<lambda>pid. int (card (dd_lookup {} pts pid))) ?ids))
                   / real_of_int (int (length ?ids))))
          (int (length (filter (\<lambda>pid. dd_lookup {} pts pid = {}) ?ids)))
          (PFloat (real_of_int (sum_list lens) / real_of_int (int (length ?ids))))
          med
          (if length ?ids > 1
           then PFloat (sqrt ((\<Sum>x\<leftarrow>lens. (real_of_int x - mean lens)\<^sup>2)
                  / real (length ?ids - 1)))
           else PInt 0)
          mn mx
        @ [] # print_symptom_distribution iter_order (snd (dd_getitems {} pts ?ids)))"
    unfolding main_def Let_def la prod.case ps sum.case by simp
  with lens m show ?thesis
    unfolding la fst_conv snd_conv by blast
qed

lemma load_annotations_filter_known:
  assumes "pid \<in> known"
  shows "dd_lookup {} (fst (load_annotations (filter (\<lambda>(p, s, st). p \<in> known) rows))) pid
           = dd_lookup {} (fst (load_annotations rows)) pid"
    and "dd_lookup [] (snd (load_annotations (filter (\<lambda>(p, s, st). p \<in> known) rows))) pid
           = dd_lookup [] (snd (load_annotations rows)) pid"
proof -
  show "dd_lookup {} (fst (load_annotations (filter (\<lambda>(p, s, st). p \<in> known) rows))) pid
           = dd_lookup {} (fst (load_annotations rows)) pid"
    using assms by (auto simp: symptoms_load_annotations)
  have "filter (\<lambda>(p, s, st). p = pid \<and> (st = ''0'' \<or> st = ''1''))
          (filter (\<lambda>(p, s, st). p \<in> known) rows)
        = filter (\<lambda>(p, s, st). p = pid \<and> (st = ''0'' \<or> st = ''1'')) rows"
    using assms by (auto intro: filter_cong)
  then show "dd_lookup [] (snd (load_annotations (filter (\<lambda>(p, s, st). p \<in> known) rows))) pid
           = dd_lookup [] (snd (load_annotations rows)) pid"
    by (simp only: explanations_load_annotations)
qed

text \<open>
  C10. Let the post file have at least one row. Then \<^verbatim>\<open>main\<close> raises no exception,
  whatever the annotations are, and prints the ten lines of the statistics block, an
  empty line and the distribution block, and nothing else. The statistics block is the
  one printed for the annotation file without the rows whose post identifier is not in
  the post map: such rows contribute to none of its metrics. The distribution block
  counts them: the count of a symptom is the number of post identifiers, in the post map
  or not, that have a row with the symptom, status \<open>''1''\<close> and the symptom in the
  taxonomy; without those rows only the identifiers of the post map would be counted.
\<close>

theorem annotations_of_unknown_posts:
  assumes "valid_iter_order iter_order" and "post_rows \<noteq> []"
  shows "\<exists>stats ranking ranking_known.
      main iter_order post_rows annotation_rows
        = Inr (stats @ [] # [Lit ''Posts per symptom (status=1 only):'']
            # map (\<lambda>(symptom, count). [Lit ''  '', Lit symptom, Lit '': '', Fmt (PInt count) Plain])
                ranking)
    \<and> main iter_order post_rows
          (filter (\<lambda>(pid, symptom, status). pid \<in> fst ` set post_rows) annotation_rows)
        = Inr (stats @ [] # [Lit ''Posts per symptom (status=1 only):'']
            # map (\<lambda>(symptom, count). [Lit ''  '', Lit symptom, Lit '': '', Fmt (PInt count) Plain])
                ranking_known)
    \<and> length stats = 10
    \<and> (\<forall>c. map_of ranking c =
          (if card {pid. (pid, c, ''1'') \<in> set annotation_rows \<and> c \<in> DSM5_SYMPTOM_NAMES} = 0
           then None
           else Some (int (card {pid. (pid, c, ''1'') \<in> set annotation_rows
                                   \<and> c \<in> DSM5_SYMPTOM_NAMES}))))
    \<and> (\<forall>c. map_of ranking_known c =
          (if card {pid. (pid, c, ''1'') \<in> set annotation_rows \<and> pid \<in> fst ` set post_rows
                      \<and> c \<in> DSM5_SYMPTOM_NAMES} = 0
           then None
           else Some (int (card {pid. (pid, c, ''1'') \<in> set annotation_rows
                                   \<and> pid \<in> fst ` set post_rows \<and> c \<in> DSM5_SYMPTOM_NAMES}))))"
proof -
  let ?known = "\<lambda>(pid, symptom, status). pid \<in> fst ` set post_rows"
  let ?F = "filter ?known annotation_rows"
  let ?ids = "map fst (load_full_posts post_rows)"
  let ?dist = "\<lambda>(symptom, count). [Lit ''  '', Lit symptom, Lit '': '', Fmt (PInt count) Plain]"
  let ?ranking = "most_common (symptom_counter iter_order (fst (load_annotations annotation_rows)))"
  let ?ranking_known = "most_common (symptom_counter iter_order (fst (load_annotations ?F)))"
  note v = assms(1) and ne = assms(2)
  have ids: "set ?ids = fst ` set post_rows"
    by (simp add: keys_load_full_posts)
  from main_success [OF ne, of iter_order annotation_rows] obtain lens med mn mx where
    lens: "post_lengths (load_full_posts post_rows) ?ids = Inr lens"
    and m: "median lens = Inr med" "py_min lens = Inr mn" "py_max lens = Inr mx"
    and m1: "main iter_order post_rows annotation_rows =
        Inr (statistics_lines (int (length ?ids))
          (sum_list (map (\<lambda>pid. int (length (dd_lookup [] (snd (load_annotations annotation_rows)) pid))) ?ids))
          (PFloat (real_of_int (sum_list (map (\<lambda>pid. int (length
                (dd_lookup [] (snd (load_annotations annotation_rows)) pid))) ?ids))
             / real_of_int (int (length ?ids))))
          (PFloat (real_of_int (sum_list (map (\<lambda>pid. int (card
                (dd_lookup {} (fst (load_annotations annotation_rows)) pid))) ?ids))
             / real_of_int (int (length ?ids))))
          (int (length (filter (\<lambda>pid. dd_lookup {} (fst (load_annotations annotation_rows)) pid = {})
             ?ids)))
          (PFloat (real_of_int (sum_list lens) / real_of_int (int (length ?ids))))
          med
          (if length ?ids > 1
           then PFloat (sqrt ((\<Sum>x\<leftarrow>lens. (real_of_int x - mean lens)\<^sup>2)
                  / real (length ?ids - 1)))
           else PInt 0)
          mn mx
        @ [] # print_symptom_distribution iter_order
                 (snd (dd_getitems {} (fst (load_annotations annotation_rows)) ?ids)))"
    by blast
  from main_success [OF ne, of iter_order ?F] obtain lens' med' mn' mx' where
    lens': "post_lengths (load_full_posts post_rows) ?ids = Inr lens'"
    and m': "median lens' = Inr med'" "py_min lens' = Inr mn'" "py_max lens' = Inr mx'"
    and m2: "main iter_order post_rows ?F =
        Inr (statistics_lines (int (length ?ids))
          (sum_list (map (\<lambda>pid. int (length (dd_lookup [] (snd (load_annotations ?F)) pid))) ?ids))
          (PFloat (real_of_int (sum_list (map (\<lambda>pid. int (length
                (dd_lookup [] (snd (load_annotations ?F)) pid))) ?ids))
             / real_of_int (int (length ?ids))))
          (PFloat (real_of_int (sum_list (map (\<lambda>pid. int (card
                (dd_lookup {} (fst (load_annotations ?F)) pid))) ?ids))
             / real_of_int (int (length ?ids))))
          (int (length (filter (\<lambda>pid. dd_lookup {} (fst (load_annotations ?F)) pid = {})
             ?ids)))
          (PFloat (real_of_int (sum_list lens') / real_of_int (int (length ?ids))))
          med'
          (if length ?ids > 1
           then PFloat (sqrt ((\<Sum>x\<leftarrow>lens'. (real_of_int x - mean lens')\<^sup>2)
                  / real (length ?ids - 1)))
           else PInt 0)
          mn' mx'
        @ [] # print_symptom_distribution iter_order
                 (snd (dd_getitems {} (fst (load_annotations ?F)) ?ids)))"
    by blast
  from lens lens' have l: "lens' = lens" by simp
  with m m' have mm: "med' = med" "mn' = mn" "mx' = mx" by simp_all
  have e1: "map (\<lambda>pid. int (length (dd_lookup [] (snd (load_annotations ?F)) pid))) ?ids
          = map (\<lambda>pid. int (length (dd_lookup [] (snd (load_annotations annotation_rows)) pid))) ?ids"
    by (rule map_cong [OF refl]) (simp only: ids load_annotations_filter_known(2))
  have e2: "map (\<lambda>pid. int (card (dd_lookup {} (fst (load_annotations ?F)) pid))) ?ids
          = map (\<lambda>pid. int (card (dd_lookup {} (fst (load_annotations annotation_rows)) pid))) ?ids"
    by (rule map_cong [OF refl]) (simp only: ids load_annotations_filter_known(1))
  have e3: "filter (\<lambda>pid. dd_lookup {} (fst (load_annotations ?F)) pid = {}) ?ids
          = filter (\<lambda>pid. dd_lookup {} (fst (load_annotations annotation_rows)) pid = {}) ?ids"
    by (rule filter_cong [OF refl]) (simp only: ids load_annotations_filter_known(1))
  define stats where "stats = statistics_lines (int (length ?ids))
          (sum_list (map (\<lambda>pid. int (length (dd_lookup [] (snd (load_annotations annotation_rows)) pid))) ?ids))
          (PFloat (real_of_int (sum_list (map (\<lambda>pid. int (length
                (dd_lookup [] (snd (load_annotations annotation_rows)) pid))) ?ids))
             / real_of_int (int (length ?ids))))
          (PFloat (real_of_int (sum_list (map (\<lambda>pid. int (card
                (dd_lookup {} (fst (load_annotations annotation_rows)) pid))) ?ids))
             / real_of_int (int (length ?ids))))
          (int (length (filter (\<lambda>pid. dd_lookup {} (fst (load_annotations annotation_rows)) pid = {})
             ?ids)))
          (PFloat (real_of_int (sum_list lens) / real_of_int (int (length ?ids))))
          med
          (if length ?ids > 1
           then PFloat (sqrt ((\<Sum>x\<leftarrow>lens. (real_of_int x - mean lens)\<^sup>2)
                  / real (length ?ids - 1)))
           else PInt 0)
          mn mx"
  have len: "length stats = 10"
    by (simp add: stats_def statistics_lines_def)
  have dist: "print_symptom_distribution iter_order (snd (dd_getitems {} (fst (load_annotations rows)) ?ids))
      = [Lit ''Posts per symptom (status=1 only):'']
        # map ?dist (most_common (symptom_counter iter_order (fst (load_annotations rows))))" for rows
    by (simp add: print_symptom_distribution_def symptom_counter_dd_getitems [OF v])
  have r1: "main iter_order post_rows annotation_rows
        = Inr (stats @ [] # [Lit ''Posts per symptom (status=1 only):''] # map ?dist ?ranking)"
    unfolding m1 dist stats_def by (rule refl)
  have r2: "main iter_order post_rows ?F
        = Inr (stats @ [] # [Lit ''Posts per symptom (status=1 only):''] # map ?dist ?ranking_known)"
    unfolding m2 dist stats_def l mm e1 e2 e3 by (rule refl)
  have k: "{pid. (pid, c, ''1'') \<in> set ?F \<and> c \<in> DSM5_SYMPTOM_NAMES}
      = {pid. (pid, c, ''1'') \<in> set annotation_rows \<and> pid \<in> fst ` set post_rows
              \<and> c \<in> DSM5_SYMPTOM_NAMES}" for c
    by auto
  have c1: "map_of ?ranking c =
          (if card {pid. (pid, c, ''1'') \<in> set annotation_rows \<and> c \<in> DSM5_SYMPTOM_NAMES} = 0
           then None
           else Some (int (card {pid. (pid, c, ''1'') \<in> set annotation_rows
                                   \<and> c \<in> DSM5_SYMPTOM_NAMES})))" for c
    by (rule ranking_load_annotations [OF v])
  have c2: "map_of ?ranking_known c =
          (if card {pid. (pid, c, ''1'') \<in> set annotation_rows \<and> pid \<in> fst ` set post_rows
                      \<and> c \<in> DSM5_SYMPTOM_NAMES} = 0
           then None
           else Some (int (card {pid. (pid, c, ''1'') \<in> set annotation_rows
                                   \<and> pid \<in> fst ` set post_rows \<and> c \<in> DSM5_SYMPTOM_NAMES})))" for c
    using ranking_load_annotations [OF v, of ?F c] unfolding k .
  from r1 r2 len c1 c2 show ?thesis by blast
qed

subsection \<open>A run with an annotation of an unknown post\<close>

lemma load_annotations_U:
  "load_annotations [(''p1'', ''DEPRESSED_MOOD'', ''1''), (''p9'', ''DEPRESSED_MOOD'', ''1'')]
     = ([(''p1'', {''DEPRESSED_MOOD''}), (''p9'', {''DEPRESSED_MOOD''})],
        [(''p1'', [(''DEPRESSED_MOOD'', ''1'')]), (''p9'', [(''DEPRESSED_MOOD'', ''1'')])])"
  by (simp add: load_annotations_def annotation_step_def dd_set_add_def dd_list_append_def
      dd_getitem_def DEPRESSED_MOOD_is_name)

lemma load_annotations_K:
  "load_annotations [(''p1'', ''DEPRESSED_MOOD'', ''1'')]
     = ([(''p1'', {''DEPRESSED_MOOD''})], [(''p1'', [(''DEPRESSED_MOOD'', ''1'')])])"
  by (simp add: load_annotations_def annotation_step_def dd_set_add_def dd_list_append_def
      dd_getitem_def DEPRESSED_MOOD_is_name)

lemma median_3: "median [3] = Inr (PInt 3)"
  by (simp add: median_def)

lemma print_statistics_U:
  "print_statistics [''p1''] [(''p1'', ''a b c'')]
      [(''p1'', {''DEPRESSED_MOOD''}), (''p9'', {''DEPRESSED_MOOD''})]
      [(''p1'', [(''DEPRESSED_MOOD'', ''1'')]), (''p9'', [(''DEPRESSED_MOOD'', ''1'')])] =
    (Inr [[Lit ''Total number of posts: '', Fmt (PInt 1) Plain],
      [Lit ''Total number of explanations (all status): '', Fmt (PInt 1) Plain],
      [Lit ''Avg. number of explanations per post: '', Fmt (PFloat 1) Fixed2],
      [Lit ''Avg. number of symptoms per post (status=1 only): '', Fmt (PFloat 1) Fixed2],
      [Lit ''Number of hard negatives: '', Fmt (PInt 0) Plain],
      [Lit ''Avg. length of post (in words): '', Fmt (PFloat 3) Fixed2],
      [Lit ''Median length of post (in words): '', Fmt (PInt 3) Plain],
      [Lit ''Std. dev. of post length (in words): '', Fmt (PInt 0) Fixed2],
      [Lit ''Min. length of post (in words): '', Fmt (PInt 3) Plain],
      [Lit ''Max. length of post (in words): '', Fmt (PInt 3) Plain]],
     [(''p1'', {''DEPRESSED_MOOD''}), (''p9'', {''DEPRESSED_MOOD''})],
     [(''p1'', [(''DEPRESSED_MOOD'', ''1'')]), (''p9'', [(''DEPRESSED_MOOD'', ''1'')])])"
  by (simp add: print_statistics_def Let_def n_of_explanations_def n_of_hard_negatives_def
      avg_explanations_per_post_def avg_symptoms_per_post_def avg_length_def true_div_def
      std_dev_length_def dict_getitem_def split_abc median_3 dd_getitem_def
      statistics_lines_def)

lemma print_statistics_K:
  "print_statistics [''p1''] [(''p1'', ''a b c'')]
      [(''p1'', {''DEPRESSED_MOOD''})] [(''p1'', [(''DEPRESSED_MOOD'', ''1'')])] =
    (Inr [[Lit ''Total number of posts: '', Fmt (PInt 1) Plain],
      [Lit ''Total number of explanations (all status): '', Fmt (PInt 1) Plain],
      [Lit ''Avg. number of explanations per post: '', Fmt (PFloat 1) Fixed2],
      [Lit ''Avg. number of symptoms per post (status=1 only): '', Fmt (PFloat 1) Fixed2],
      [Lit ''Number of hard negatives: '', Fmt (PInt 0) Plain],
      [Lit ''Avg. length of post (in words): '', Fmt (PFloat 3) Fixed2],
      [Lit ''Median length of post (in words): '', Fmt (PInt 3) Plain],
      [Lit ''Std. dev. of post length (in words): '', Fmt (PInt 0) Fixed2],
      [Lit ''Min. length of post (in words): '', Fmt (PInt 3) Plain],
      [Lit ''Max. length of post (in words): '', Fmt (PInt 3) Plain]],
     [(''p1'', {''DEPRESSED_MOOD''})], [(''p1'', [(''DEPRESSED_MOOD'', ''1'')])])"
  by (simp add: print_statistics_def Let_def n_of_explanations_def n_of_hard_negatives_def
      avg_explanations_per_post_def avg_symptoms_per_post_def avg_length_def true_div_def
      std_dev_length_def dict_getitem_def split_abc median_3 dd_getitem_def
      statistics_lines_def)

lemma main_U:
  "main sorted_list_of_set [(''p1'', ''a b c'')]
      [(''p1'', ''DEPRESSED_MOOD'', ''1''), (''p9'', ''DEPRESSED_MOOD'', ''1'')] =
    Inr [[Lit ''Total number of posts: '', Fmt (PInt 1) Plain],
      [Lit ''Total number of explanations (all status): '', Fmt (PInt 1) Plain],
      [Lit ''Avg. number of explanations per post: '', Fmt (PFloat 1) Fixed2],
      [Lit ''Avg. number of symptoms per post (status=1 only): '', Fmt (PFloat 1) Fixed2],
      [Lit ''Number of hard negatives: '', Fmt (PInt 0) Plain],
      [Lit ''Avg. length of post (in words): '', Fmt (PFloat 3) Fixed2],
      [Lit ''Median length of post (in words): '', Fmt (PInt 3) Plain],
      [Lit ''Std. dev. of post length (in words): '', Fmt (PInt 0) Fixed2],
      [Lit ''Min. length of post (in words): '', Fmt (PInt 3) Plain],
      [Lit ''Max. length of post (in words): '', Fmt (PInt 3) Plain],
      [],
      [Lit ''Posts per symptom (status=1 only):''],
      [Lit ''  '', Lit ''DEPRESSED_MOOD'', Lit '': '', Fmt (PInt 2) Plain]]"
  unfolding main_def Let_def load_annotations_U
  by (simp add: load_full_posts_def print_statistics_U print_symptom_distribution_def
      symptom_counter_def iter_order_singleton [OF valid_iter_order_sorted] counter_incr_def
      most_common_def)

lemma main_K:
  "main sorted_list_of_set [(''p1'', ''a b c'')] [(''p1'', ''DEPRESSED_MOOD'', ''1'')] =
    Inr [[Lit ''Total number of posts: '', Fmt (PInt 1) Plain],
      [Lit ''Total number of explanations (all status): '', Fmt (PInt 1) Plain],
      [Lit ''Avg. number of explanations per post: '', Fmt (PFloat 1) Fixed2],
      [Lit ''Avg. number of symptoms per post (status=1 only): '', Fmt (PFloat 1) Fixed2],
      [Lit ''Number of hard negatives: '', Fmt (PInt 0) Plain],
      [Lit ''Avg. length of post (in words): '', Fmt (PFloat 3) Fixed2],
      [Lit ''Median length of post (in words): '', Fmt (PInt 3) Plain],
      [Lit ''Std. dev. of post length (in words): '', Fmt (PInt 0) Fixed2],
      [Lit ''Min. length of post (in words): '', Fmt (PInt 3) Plain],
      [Lit ''Max. length of post (in words): '', Fmt (PInt 3) Plain],
      [],
      [Lit ''Posts per symptom (status=1 only):''],
      [Lit ''  '', Lit ''DEPRESSED_MOOD'', Lit '': '', Fmt (PInt 1) Plain]]"
  unfolding main_def Let_def load_annotations_K
  by (simp add: load_full_posts_def print_statistics_K print_symptom_distribution_def
      symptom_counter_def iter_order_singleton [OF valid_iter_order_sorted] counter_incr_def
      most_common_def)

theorem annotations_of_unknown_posts_witness:
  "valid_iter_order sorted_list_of_set
   \<and> [(''p1'', ''a b c'')] \<noteq> []
   \<and> main sorted_list_of_set [(''p1'', ''a b c'')]
      [(''p1'', ''DEPRESSED_MOOD'', ''1''), (''p9'', ''DEPRESSED_MOOD'', ''1'')] =
    Inr [[Lit ''Total number of posts: '', Fmt (PInt 1) Plain],
      [Lit ''Total number of explanations (all status): '', Fmt (PInt 1) Plain],
      [Lit ''Avg. number of explanations per post: '', Fmt (PFloat 1) Fixed2],
      [Lit ''Avg. number of symptoms per post (status=1 only): '', Fmt (PFloat 1) Fixed2],
      [Lit ''Number of hard negatives: '', Fmt (PInt 0) Plain],
      [Lit ''Avg. length of post (in words): '', Fmt (PFloat 3) Fixed2],
      [Lit ''Median length of post (in words): '', Fmt (PInt 3) Plain],
      [Lit ''Std. dev. of post length (in words): '', Fmt (PInt 0) Fixed2],
      [Lit ''Min. length of post (in words): '', Fmt (PInt 3) Plain],
      [Lit ''Max. length of post (in words): '', Fmt (PInt 3) Plain],
      [],
      [Lit ''Posts per symptom (status=1 only):''],
      [Lit ''  '', Lit ''DEPRESSED_MOOD'', Lit '': '', Fmt (PInt 2) Plain]]
   \<and> int (card {pid. (pid, ''DEPRESSED_MOOD'', ''1'')
                    \<in> set [(''p1'', ''DEPRESSED_MOOD'', ''1''), (''p9'', ''DEPRESSED_MOOD'', ''1'')]
                  \<and> ''DEPRESSED_MOOD'' \<in> DSM5_SYMPTOM_NAMES}) = 2
   \<and> int (card {pid. (pid, ''DEPRESSED_MOOD'', ''1'')
                    \<in> set [(''p1'', ''DEPRESSED_MOOD'', ''1''), (''p9'', ''DEPRESSED_MOOD'', ''1'')]
                  \<and> pid \<in> fst ` set [(''p1'', ''a b c'')]
                  \<and> ''DEPRESSED_MOOD'' \<in> DSM5_SYMPTOM_NAMES}) = 1"
proof -
  let ?dist = "\<lambda>(symptom, count). [Lit ''  '', Lit symptom, Lit '': '', Fmt (PInt count) Plain]"
  note v = valid_iter_order_sorted
  have ne: "[(''p1'', ''a b c'')] \<noteq> []" by simp
  have flt: "filter (\<lambda>(pid, symptom, status). pid \<in> fst ` set [(''p1'', ''a b c'')])
      [(''p1'', ''DEPRESSED_MOOD'', ''1''), (''p9'', ''DEPRESSED_MOOD'', ''1'')]
      = [(''p1'', ''DEPRESSED_MOOD'', ''1'')]"
    by simp
  from annotations_of_unknown_posts [OF v ne,
      of "[(''p1'', ''DEPRESSED_MOOD'', ''1''), (''p9'', ''DEPRESSED_MOOD'', ''1'')]",
      unfolded flt main_U main_K]
  obtain stats ranking ranking_known where
    len: "length stats = 10"
    and a: "[[Lit ''Total number of posts: '', Fmt (PInt 1) Plain],
      [Lit ''Total number of explanations (all status): '', Fmt (PInt 1) Plain],
      [Lit ''Avg. number of explanations per post: '', Fmt (PFloat 1) Fixed2],
      [Lit ''Avg. number of symptoms per post (status=1 only): '', Fmt (PFloat 1) Fixed2],
      [Lit ''Number of hard negatives: '', Fmt (PInt 0) Plain],
      [Lit ''Avg. length of post (in words): '', Fmt (PFloat 3) Fixed2],
      [Lit ''Median length of post (in words): '', Fmt (PInt 3) Plain],
      [Lit ''Std. dev. of post length (in words): '', Fmt (PInt 0) Fixed2],
      [Lit ''Min. length of post (in words): '', Fmt (PInt 3) Plain],
      [Lit ''Max. length of post (in words): '', Fmt (PInt 3) Plain],
      [],
      [Lit ''Posts per symptom (status=1 only):''],
      [Lit ''  '', Lit ''DEPRESSED_MOOD'', Lit '': '', Fmt (PInt 2) Plain]]
      = stats @ [] # [Lit ''Posts per symptom (status=1 only):''] # map ?dist ranking"
    and b: "[[Lit ''Total number of posts: '', Fmt (PInt 1) Plain],
      [Lit ''Total number of explanations (all status): '', Fmt (PInt 1) Plain],
      [Lit ''Avg. number of explanations per post: '', Fmt (PFloat 1) Fixed2],
      [Lit ''Avg. number of symptoms per post (status=1 only): '', Fmt (PFloat 1) Fixed2],
      [Lit ''Number of hard negatives: '', Fmt (PInt 0) Plain],
      [Lit ''Avg. length of post (in words): '', Fmt (PFloat 3) Fixed2],
      [Lit ''Median length of post (in words): '', Fmt (PInt 3) Plain],
      [Lit ''Std. dev. of post length (in words): '', Fmt (PInt 0) Fixed2],
      [Lit ''Min. length of post (in words): '', Fmt (PInt 3) Plain],
      [Lit ''Max. length of post (in words): '', Fmt (PInt 3) Plain],
      [],
      [Lit ''Posts per symptom (status=1 only):''],
      [Lit ''  '', Lit ''DEPRESSED_MOOD'', Lit '': '', Fmt (PInt 1) Plain]]
      = stats @ [] # [Lit ''Posts per symptom (status=1 only):''] # map ?dist ranking_known"
    and c: "\<And>c. map_of ranking c =
          (if card {pid. (pid, c, ''1'')
                     \<in> set [(''p1'', ''DEPRESSED_MOOD'', ''1''), (''p9'', ''DEPRESSED_MOOD'', ''1'')]
                   \<and> c \<in> DSM5_SYMPTOM_NAMES} = 0
           then None
           else Some (int (card {pid. (pid, c, ''1'')
                     \<in> set [(''p1'', ''DEPRESSED_MOOD'', ''1''), (''p9'', ''DEPRESSED_MOOD'', ''1'')]
                   \<and> c \<in> DSM5_SYMPTOM_NAMES})))"
    and ck: "\<And>c. map_of ranking_known c =
          (if card {pid. (pid, c, ''1'')
                     \<in> set [(''p1'', ''DEPRESSED_MOOD'', ''1''), (''p9'', ''DEPRESSED_MOOD'', ''1'')]
                   \<and> pid \<in> fst ` set [(''p1'', ''a b c'')]
                   \<and> c \<in> DSM5_SYMPTOM_NAMES} = 0
           then None
           else Some (int (card {pid. (pid, c, ''1'')
                     \<in> set [(''p1'', ''DEPRESSED_MOOD'', ''1''), (''p9'', ''DEPRESSED_MOOD'', ''1'')]
                   \<and> pid \<in> fst ` set [(''p1'', ''a b c'')]
                   \<and> c \<in> DSM5_SYMPTOM_NAMES})))"
    by (auto simp only: sum.inject)
  from a [symmetric] len have "map ?dist ranking = [[Lit ''  '', Lit ''DEPRESSED_MOOD'', Lit '': '', Fmt (PInt 2) Plain]]"
    by (simp add: append_eq_conv_conj)
  then have r: "ranking = [(''DEPRESSED_MOOD'', 2)]"
    by (cases ranking) (auto simp: split_beta prod_eq_iff)
  from b [symmetric] len have "map ?dist ranking_known = [[Lit ''  '', Lit ''DEPRESSED_MOOD'', Lit '': '', Fmt (PInt 1) Plain]]"
    by (simp add: append_eq_conv_conj)
  then have rk: "ranking_known = [(''DEPRESSED_MOOD'', 1)]"
    by (cases ranking_known) (auto simp: split_beta prod_eq_iff)
  from c [of "''DEPRESSED_MOOD''"] have n: "int (card {pid. (pid, ''DEPRESSED_MOOD'', ''1'')
                    \<in> set [(''p1'', ''DEPRESSED_MOOD'', ''1''), (''p9'', ''DEPRESSED_MOOD'', ''1'')]
                  \<and> ''DEPRESSED_MOOD'' \<in> DSM5_SYMPTOM_NAMES}) = 2"
    unfolding r by (simp split: if_splits)
  from ck [of "''DEPRESSED_MOOD''"] have nk: "int (card {pid. (pid, ''DEPRESSED_MOOD'', ''1'')
                    \<in> set [(''p1'', ''DEPRESSED_MOOD'', ''1''), (''p9'', ''DEPRESSED_MOOD'', ''1'')]
                  \<and> pid \<in> fst ` set [(''p1'', ''a b c'')]
                  \<and> ''DEPRESSED_MOOD'' \<in> DSM5_SYMPTOM_NAMES}) = 1"
    unfolding rk by (simp split: if_splits)
  from v ne main_U n nk show ?thesis by (intro conjI)
qed

end
